theory Spec2Isabelle
  imports Complex_Main
begin

section \<open>Python values\<close>

text \<open>
  The engine handles four kinds of Python values: \<open>None\<close>, \<open>int\<close> (unbounded),
  \<open>float\<close> and \<open>str\<close>. The lexer has no sign character, so every float of the
  engine comes from \<open>float(text)\<close> on a run of digits and dots: it is a non-negative
  double or \<open>inf\<close>, never a NaN. A float is kept as the number it holds (\<open>None\<close>
  for \<open>inf\<close>) together with the text \<open>str()\<close> prints for it. How \<open>float()\<close>
  rounds a decimal text to a double is not fixed here: the conversion is an argument
  (\<open>fl\<close>) of the lexer, and every statement below holds for all conversions.
  A character of a string is a code point below 256 (Latin-1); text with other code points
  is outside of this theory.
\<close>

datatype pyfloat = Float (fval: "rat option") (ftext: string)

datatype pyval = PNone | PInt int | PFloat pyfloat | PStr string

text \<open>The built-in exceptions that the pipeline can raise; \<open>err_str\<close> is \<open>str(e)\<close>.\<close>

datatype error = ValueError string | TypeError string | AttributeError string | KeyError string

definition quote :: char where
  "quote = CHR 0x27"

definition newline :: char where
  "newline = CHR 0x0A"

fun err_str :: "error \<Rightarrow> string" where
  "err_str (ValueError m) = m"
| "err_str (TypeError m) = m"
| "err_str (AttributeError m) = m"
| "err_str (KeyError k) = [quote] @ k @ [quote]"

text \<open>\<open>type(v).__name__\<close>\<close>

fun type_name :: "pyval \<Rightarrow> string" where
  "type_name PNone = ''NoneType''"
| "type_name (PInt i) = ''int''"
| "type_name (PFloat f) = ''float''"
| "type_name (PStr s) = ''str''"

text \<open>Decimal digits of a natural number and of an integer: \<open>str(n)\<close>.\<close>

definition digit_char :: "nat \<Rightarrow> char" where
  "digit_char d = char_of (48 + d)"

fun str_nat :: "nat \<Rightarrow> string" where
  "str_nat n = (if n < 10 then [digit_char n] else str_nat (n div 10) @ [digit_char (n mod 10)])"

declare str_nat.simps [simp del]

definition str_int :: "int \<Rightarrow> string" where
  "str_int i = (if i < 0 then CHR ''-'' # str_nat (nat (- i)) else str_nat (nat i))"

text \<open>\<open>str(v)\<close>\<close>

fun py_str :: "pyval \<Rightarrow> string" where
  "py_str PNone = ''None''"
| "py_str (PInt i) = str_int i"
| "py_str (PFloat f) = ftext f"
| "py_str (PStr s) = s"

text \<open>Truth value of an object in a condition (\<open>if v\<close>, \<open>v and ...\<close>).\<close>

fun truthy :: "pyval \<Rightarrow> bool" where
  "truthy PNone = False"
| "truthy (PInt i) = (i \<noteq> 0)"
| "truthy (PFloat f) = (fval f \<noteq> Some 0)"
| "truthy (PStr s) = (s \<noteq> [])"

text \<open>
  Comparison. Numbers (int and float, mixed) compare by value, \<open>inf\<close> above every
  finite number; strings compare by code point, lexicographically; \<open>==\<close> between values of
  other kinds is identity of the value and never raises; an ordering between them raises
  TypeError.
\<close>

fun as_num :: "pyval \<Rightarrow> rat option option" where
  "as_num (PInt i) = Some (Some (of_int i))"
| "as_num (PFloat f) = Some (fval f)"
| "as_num v = None"

fun num_less :: "rat option \<Rightarrow> rat option \<Rightarrow> bool" where
  "num_less (Some a) (Some b) = (a < b)"
| "num_less (Some a) None = True"
| "num_less None b = False"

fun str_less :: "string \<Rightarrow> string \<Rightarrow> bool" where
  "str_less [] [] = False"
| "str_less [] (y # ys) = True"
| "str_less (x # xs) [] = False"
| "str_less (x # xs) (y # ys) =
     (if (of_char x :: nat) < of_char y then True
      else if (of_char y :: nat) < of_char x then False
      else str_less xs ys)"

definition py_eq :: "pyval \<Rightarrow> pyval \<Rightarrow> bool" where
  "py_eq a b = (case (as_num a, as_num b) of (Some x, Some y) \<Rightarrow> x = y | _ \<Rightarrow> a = b)"

text \<open>
  \<open>a op b\<close> for the orderings \<open><\<close>, \<open>>\<close>, \<open><=\<close>, \<open>>=\<close>. Numbers and strings are
  totally ordered, so \<open>a <= b\<close> is "not \<open>b < a\<close>". The TypeError names the operator and
  the kinds of the left and the right operand.
\<close>

definition num_rel :: "string \<Rightarrow> rat option \<Rightarrow> rat option \<Rightarrow> bool" where
  "num_rel opname x y =
     (if opname = ''<'' then num_less x y
      else if opname = ''>'' then num_less y x
      else if opname = ''<='' then \<not> num_less y x
      else \<not> num_less x y)"

definition str_rel :: "string \<Rightarrow> string \<Rightarrow> string \<Rightarrow> bool" where
  "str_rel opname s t =
     (if opname = ''<'' then str_less s t
      else if opname = ''>'' then str_less t s
      else if opname = ''<='' then \<not> str_less t s
      else \<not> str_less s t)"

definition py_cmp :: "string \<Rightarrow> pyval \<Rightarrow> pyval \<Rightarrow> error + bool" where
  "py_cmp opname a b =
     (case (as_num a, as_num b) of
        (Some x, Some y) \<Rightarrow> Inr (num_rel opname x y)
      | _ \<Rightarrow>
        (case (a, b) of
           (PStr s, PStr t) \<Rightarrow> Inr (str_rel opname s t)
         | _ \<Rightarrow> Inl (TypeError ([quote] @ opname @ [quote] @ '' not supported between instances of ''
                    @ [quote] @ type_name a @ [quote] @ '' and '' @ [quote] @ type_name b @ [quote]))))"

section \<open>Lexer (lexer.py)\<close>

datatype TokenType =
    SELECT | FROM | WHERE | INSERT | INTO | VALUES | CREATE | TABLE | INT_KW | VARCHAR | AND | OR
  | IDENTIFIER | NUMBER | STRING
  | EQUALS | GREATER | LESS | GREATER_EQ | LESS_EQ | NOT_EQ
  | LPAREN | RPAREN | COMMA | SEMICOLON | STAR
  | EOF

text \<open>The fields \<open>type\<close>, \<open>value\<close> and \<open>position\<close> of the dataclass \<open>Token\<close>.\<close>

record Token =
  ttype :: TokenType
  tvalue :: pyval
  tposition :: nat

definition KEYWORDS :: "(string \<times> TokenType) list" where
  "KEYWORDS =
     [(''SELECT'', SELECT), (''FROM'', FROM), (''WHERE'', WHERE), (''INSERT'', INSERT),
      (''INTO'', INTO), (''VALUES'', VALUES), (''CREATE'', CREATE), (''TABLE'', TABLE),
      (''INT'', INT_KW), (''VARCHAR'', VARCHAR), (''AND'', AND), (''OR'', OR)]"

text \<open>
  The character classes of \<open>str\<close> on the code points below 256. \<open>isspace\<close> holds of
  the characters 9 to 13 and 28 to 32, of 0x85 and of 0xA0; \<open>isdecimal\<close> of \<open>0\<close> to
  \<open>9\<close>; \<open>isdigit\<close> also of the superscripts 0xB2, 0xB3 and 0xB9; \<open>isalpha\<close> of the
  ASCII letters, of 0xAA, 0xB5, 0xBA and of 0xC0 to 0xFF but 0xD7 and 0xF7; \<open>isalnum\<close>
  of the letters, the digits and the fractions 0xBC to 0xBE.
\<close>

definition isspace :: "char \<Rightarrow> bool" where
  "isspace c =
     (let n = (of_char c :: nat) in (9 \<le> n \<and> n \<le> 13) \<or> (28 \<le> n \<and> n \<le> 32) \<or> n = 133 \<or> n = 160)"

definition isdecimal :: "char \<Rightarrow> bool" where
  "isdecimal c = (let n = (of_char c :: nat) in 48 \<le> n \<and> n \<le> 57)"

definition isdigit :: "char \<Rightarrow> bool" where
  "isdigit c = (let n = (of_char c :: nat) in isdecimal c \<or> n = 178 \<or> n = 179 \<or> n = 185)"

definition isalpha :: "char \<Rightarrow> bool" where
  "isalpha c =
     (let n = (of_char c :: nat)
      in (65 \<le> n \<and> n \<le> 90) \<or> (97 \<le> n \<and> n \<le> 122) \<or> n = 170 \<or> n = 181 \<or> n = 186
         \<or> (192 \<le> n \<and> n \<le> 214) \<or> (216 \<le> n \<and> n \<le> 246) \<or> 248 \<le> n)"

definition isalnum :: "char \<Rightarrow> bool" where
  "isalnum c = (let n = (of_char c :: nat) in isalpha c \<or> isdigit c \<or> (188 \<le> n \<and> n \<le> 190))"

text \<open>
  \<open>str.upper\<close>, which the lexer uses only to look an identifier up among the keywords.
  The capital of 0xDF is \<open>SS\<close>. The capitals of 0xB5 and 0xFF are code points above 255:
  these two characters are kept as they are, which, like their capitals, stand in no keyword.
\<close>

definition upper_char :: "char \<Rightarrow> string" where
  "upper_char c =
     (let n = (of_char c :: nat)
      in if 97 \<le> n \<and> n \<le> 122 then [char_of (n - 32)]
         else if n = 223 then ''SS''
         else if 224 \<le> n \<and> n \<le> 254 \<and> n \<noteq> 247 then [char_of (n - 32)]
         else [c])"

definition upper :: "string \<Rightarrow> string" where
  "upper s = concat (map upper_char s)"

text \<open>
  \<open>int(num_str)\<close> and \<open>float(num_str)\<close> on a run of digits and dots, which is what
  \<open>read_number\<close> passes to them. \<open>int\<close> first counts the decimal digits the text begins
  with: more than \<open>max_str_digits\<close> of them (4300, the default of
  \<open>sys.set_int_max_str_digits\<close>) raise ValueError. Then it accepts a text that is not empty
  and has decimal digits only; the literal in its error message is \<open>%.200R\<close>, the first
  200 characters of the \<open>repr\<close>. \<open>float\<close> accepts a text with exactly one dot, at least
  one digit and decimal digits otherwise, of any length; its value is \<open>fl\<close> of the text.
\<close>

definition digit_val :: "char \<Rightarrow> int" where
  "digit_val c = int (of_char c) - 48"

definition int_of_digits :: "string \<Rightarrow> int" where
  "int_of_digits s = foldl (\<lambda>acc c. 10 * acc + digit_val c) 0 s"

definition max_str_digits :: nat where
  "max_str_digits = 4300"

definition py_int :: "string \<Rightarrow> error + int" where
  "py_int s =
     (let digits = length (takeWhile isdecimal s)
      in if max_str_digits < digits then
           Inl (ValueError (''Exceeds the limit ('' @ str_nat max_str_digits
                  @ '' digits) for integer string conversion: value has '' @ str_nat digits
                  @ '' digits; use sys.set_int_max_str_digits() to increase the limit''))
         else if s = [] \<or> (\<exists>c \<in> set s. \<not> isdecimal c) then
           Inl (ValueError (''invalid literal for int() with base 10: ''
                  @ take 200 ([quote] @ s @ [quote])))
         else Inr (int_of_digits s))"

definition float_accepts :: "string \<Rightarrow> bool" where
  "float_accepts s =
     (length (filter (\<lambda>c. c = CHR ''.'') s) = 1 \<and> (\<exists>c \<in> set s. isdecimal c)
      \<and> (\<forall>c \<in> set s. isdecimal c \<or> c = CHR ''.''))"

text \<open>
  The lexer's state is \<open>sql\<close>, \<open>position\<close> and \<open>current_char\<close>. It is kept here as the
  position and the unread text \<open>sql[position:]\<close>: \<open>current_char\<close> is the head of the
  unread text (\<open>None\<close> when it is empty), \<open>advance\<close> drops it and adds one to the position,
  \<open>peek()\<close> is the second character of the unread text. Each \<open>read_\<close> method returns its
  token with the state it leaves.
\<close>

definition num_char :: "char \<Rightarrow> bool" where
  "num_char c = (isdigit c \<or> c = CHR ''.'')"

definition read_number :: "(string \<Rightarrow> pyfloat) \<Rightarrow> nat \<Rightarrow> string \<Rightarrow> error + (Token \<times> nat \<times> string)" where
  "read_number fl pos s =
     (let start_pos = pos;
          num_str = takeWhile num_char s;
          rest = dropWhile num_char s
      in if CHR ''.'' \<in> set num_str then
           (if float_accepts num_str
            then Inr (\<lparr>ttype = NUMBER, tvalue = PFloat (fl num_str), tposition = start_pos\<rparr>,
                      pos + length num_str, rest)
            else Inl (ValueError (''could not convert string to float: '' @ [quote] @ num_str @ [quote])))
         else
           (case py_int num_str of
              Inl e \<Rightarrow> Inl e
            | Inr i \<Rightarrow>
                Inr (\<lparr>ttype = NUMBER, tvalue = PInt i, tposition = start_pos\<rparr>,
                     pos + length num_str, rest)))"

definition read_string :: "nat \<Rightarrow> string \<Rightarrow> error + (Token \<times> nat \<times> string)" where
  "read_string pos s =
     (let start_pos = pos;
          body = tl s;
          string_value = takeWhile (\<lambda>c. c \<noteq> quote) body;
          rest = dropWhile (\<lambda>c. c \<noteq> quote) body
      in case rest of
           q # rest' \<Rightarrow>
             Inr (\<lparr>ttype = STRING, tvalue = PStr string_value, tposition = start_pos\<rparr>,
                  pos + 1 + length string_value + 1, rest')
         | [] \<Rightarrow> Inl (ValueError (''Unterminated string at position '' @ str_nat start_pos)))"

definition ident_char :: "char \<Rightarrow> bool" where
  "ident_char c = (isalnum c \<or> c = CHR ''_'')"

definition read_identifier :: "nat \<Rightarrow> string \<Rightarrow> Token \<times> nat \<times> string" where
  "read_identifier pos s =
     (let start_pos = pos;
          identifier = takeWhile ident_char s;
          rest = dropWhile ident_char s;
          identifier_upper = upper identifier;
          token_type = (case map_of KEYWORDS identifier_upper of Some t \<Rightarrow> t | None \<Rightarrow> IDENTIFIER);
          v = (if token_type \<noteq> IDENTIFIER then identifier_upper else identifier)
      in (\<lparr>ttype = token_type, tvalue = PStr v, tposition = start_pos\<rparr>, pos + length identifier, rest))"

definition char_map :: "(char \<times> TokenType) list" where
  "char_map =
     [(CHR ''='', EQUALS), (CHR ''>'', GREATER), (CHR ''<'', LESS), (CHR ''('', LPAREN),
      (CHR '')'', RPAREN), (CHR '','', COMMA), (CHR '';'', SEMICOLON), (CHR ''*'', STAR)]"

text \<open>
  \<open>append_token\<close> is \<open>tokens.append(tok)\<close> seen from the end of the loop: the token stands
  before the tokens that the rest of the text gives, and an error raised later leaves no
  token list.
\<close>

definition append_token :: "Token \<Rightarrow> error + Token list \<Rightarrow> error + Token list" where
  "append_token tok r = (case r of Inl e \<Rightarrow> Inl e | Inr toks \<Rightarrow> Inr (tok # toks))"

lemma length_dropWhile_less: "P c \<Longrightarrow> length (dropWhile P (c # cs)) < Suc (length cs)"
  by (simp add: le_imp_less_Suc length_dropWhile_le)

lemma read_number_shorter:
  "read_number fl pos (c # cs) = Inr (tok, pos', s') \<Longrightarrow> isdigit c \<Longrightarrow> length s' < Suc (length cs)"
  by (auto simp: read_number_def Let_def num_char_def le_imp_less_Suc length_dropWhile_le
      split: if_splits sum.splits)

lemma read_string_shorter:
  "read_string pos (c # cs) = Inr (tok, pos', s') \<Longrightarrow> length s' < Suc (length cs)"
proof -
  assume a: "read_string pos (c # cs) = Inr (tok, pos', s')"
  then obtain q where "dropWhile (\<lambda>c. c \<noteq> quote) cs = q # s'"
    by (auto simp: read_string_def Let_def split: list.splits)
  then have "length (q # s') \<le> length cs"
    by (metis length_dropWhile_le)
  then show ?thesis by simp
qed

lemma read_identifier_shorter:
  "read_identifier pos (c # cs) = (tok, pos', s') \<Longrightarrow> isalpha c \<or> c = CHR ''_'' \<Longrightarrow>
     length s' < Suc (length cs)"
  by (auto simp: read_identifier_def Let_def ident_char_def isalnum_def le_imp_less_Suc
      length_dropWhile_le)

function tokenize_from :: "(string \<Rightarrow> pyfloat) \<Rightarrow> nat \<Rightarrow> string \<Rightarrow> error + Token list" where
  "tokenize_from fl pos [] = Inr [\<lparr>ttype = EOF, tvalue = PNone, tposition = pos\<rparr>]"
| "tokenize_from fl pos (c # cs) =
     (if isspace c then
        tokenize_from fl (pos + length (takeWhile isspace (c # cs))) (dropWhile isspace (c # cs))
      else if isdigit c then
        (case read_number fl pos (c # cs) of
           Inl e \<Rightarrow> Inl e
         | Inr (tok, pos', s') \<Rightarrow> append_token tok (tokenize_from fl pos' s'))
      else if c = quote then
        (case read_string pos (c # cs) of
           Inl e \<Rightarrow> Inl e
         | Inr (tok, pos', s') \<Rightarrow> append_token tok (tokenize_from fl pos' s'))
      else if isalpha c \<or> c = CHR ''_'' then
        (case read_identifier pos (c # cs) of
           (tok, pos', s') \<Rightarrow> append_token tok (tokenize_from fl pos' s'))
      else if c = CHR ''>'' \<and> cs \<noteq> [] \<and> hd cs = CHR ''='' then
        append_token \<lparr>ttype = GREATER_EQ, tvalue = PStr ''>='', tposition = pos\<rparr>
          (tokenize_from fl (pos + 2) (tl cs))
      else if c = CHR ''<'' \<and> cs \<noteq> [] \<and> hd cs = CHR ''='' then
        append_token \<lparr>ttype = LESS_EQ, tvalue = PStr ''<='', tposition = pos\<rparr>
          (tokenize_from fl (pos + 2) (tl cs))
      else if c = CHR ''!'' \<and> cs \<noteq> [] \<and> hd cs = CHR ''='' then
        append_token \<lparr>ttype = NOT_EQ, tvalue = PStr ''!='', tposition = pos\<rparr>
          (tokenize_from fl (pos + 2) (tl cs))
      else
        (case map_of char_map c of
           Some t \<Rightarrow>
             append_token \<lparr>ttype = t, tvalue = PStr [c], tposition = pos\<rparr>
               (tokenize_from fl (pos + 1) cs)
         | None \<Rightarrow>
             Inl (ValueError (''Unexpected character '' @ [quote] @ [c] @ [quote]
                    @ '' at position '' @ str_nat pos))))"
  by pat_completeness auto
termination
proof (relation "measure (\<lambda>(fl, pos, s). length s)", goal_cases)
  case 1
  show ?case by simp
next
  case (2 fl pos c cs)
  then show ?case by (simp add: le_imp_less_Suc length_dropWhile_le)
next
  case (3 fl pos c cs x2 x y xa ya)
  then show ?case using read_number_shorter [of fl pos c cs x xa ya] by auto
next
  case (4 fl pos c cs x2 x y xa ya)
  then show ?case using read_string_shorter [of pos c cs x xa ya] by auto
next
  case (5 fl pos c cs x y xa ya)
  then show ?case using read_identifier_shorter [of pos c cs x xa ya] by auto
next
  case (6 fl pos c cs)
  then show ?case by simp
next
  case (7 fl pos c cs)
  then show ?case by simp
next
  case (8 fl pos c cs)
  then show ?case by simp
next
  case 9
  then show ?case by simp
qed

definition tokenize :: "(string \<Rightarrow> pyfloat) \<Rightarrow> string \<Rightarrow> error + Token list" where
  "tokenize fl sql = tokenize_from fl 0 sql"

section \<open>Parser (parser.py)\<close>

text \<open>
  The AST. \<open>Column\<close> has the fields \<open>name\<close>, \<open>data_type\<close> and \<open>size\<close>; \<open>size\<close> is the
  value of the NUMBER token of \<open>VARCHAR(n)\<close>, or \<open>None\<close>.
\<close>

record Column =
  col_name :: string
  data_type :: "string option"
  col_size :: pyval

datatype WhereClause =
    Condition string string pyval
  | CompoundCondition WhereClause string WhereClause

datatype Statement =
    SelectStatement "string list" string "WhereClause option"
  | InsertStatement string "string list" "pyval list"
  | CreateTableStatement string "Column list"

text \<open>
  The parser's state is \<open>tokens\<close>, \<open>position\<close> and \<open>current_token\<close>; it is kept as the
  unread tokens \<open>tokens[position:]\<close>, whose head is \<open>current_token\<close> (\<open>None\<close> when nothing
  is left, and then \<open>current_token.type\<close> raises AttributeError). \<open>advance\<close> drops the head.

  The AST fields that the dataclasses type as \<open>str\<close> take the \<open>value\<close> of an IDENTIFIER,
  AND or OR token. The lexer gives these tokens a \<open>str\<close> value (lemma
  \<open>tokenize_from_values\<close> below); \<open>as_str\<close> reads the text of such a value, and of
  any other value the text that \<open>str()\<close> prints.
\<close>

fun as_str :: "pyval \<Rightarrow> string" where
  "as_str (PStr s) = s"
| "as_str v = py_str v"

fun token_type_str :: "TokenType \<Rightarrow> string" where
  "token_type_str SELECT = ''TokenType.SELECT''"
| "token_type_str FROM = ''TokenType.FROM''"
| "token_type_str WHERE = ''TokenType.WHERE''"
| "token_type_str INSERT = ''TokenType.INSERT''"
| "token_type_str INTO = ''TokenType.INTO''"
| "token_type_str VALUES = ''TokenType.VALUES''"
| "token_type_str CREATE = ''TokenType.CREATE''"
| "token_type_str TABLE = ''TokenType.TABLE''"
| "token_type_str INT_KW = ''TokenType.INT''"
| "token_type_str VARCHAR = ''TokenType.VARCHAR''"
| "token_type_str AND = ''TokenType.AND''"
| "token_type_str OR = ''TokenType.OR''"
| "token_type_str IDENTIFIER = ''TokenType.IDENTIFIER''"
| "token_type_str NUMBER = ''TokenType.NUMBER''"
| "token_type_str STRING = ''TokenType.STRING''"
| "token_type_str EQUALS = ''TokenType.EQUALS''"
| "token_type_str GREATER = ''TokenType.GREATER''"
| "token_type_str LESS = ''TokenType.LESS''"
| "token_type_str GREATER_EQ = ''TokenType.GREATER_EQ''"
| "token_type_str LESS_EQ = ''TokenType.LESS_EQ''"
| "token_type_str NOT_EQ = ''TokenType.NOT_EQ''"
| "token_type_str LPAREN = ''TokenType.LPAREN''"
| "token_type_str RPAREN = ''TokenType.RPAREN''"
| "token_type_str COMMA = ''TokenType.COMMA''"
| "token_type_str SEMICOLON = ''TokenType.SEMICOLON''"
| "token_type_str STAR = ''TokenType.STAR''"
| "token_type_str EOF = ''TokenType.EOF''"

definition no_current_token :: error where
  "no_current_token =
     AttributeError ([quote] @ ''NoneType'' @ [quote] @ '' object has no attribute ''
       @ [quote] @ ''type'' @ [quote])"

text \<open>Sequencing of steps that may raise: the first error ends the method.\<close>

definition bind :: "error + 'a \<Rightarrow> ('a \<Rightarrow> error + 'b) \<Rightarrow> error + 'b" where
  "bind m f = (case m of Inl e \<Rightarrow> Inl e | Inr x \<Rightarrow> f x)"

text \<open>\<open>self.current_token.type\<close>\<close>

definition current_type :: "Token list \<Rightarrow> error + TokenType" where
  "current_type ts = (case ts of [] \<Rightarrow> Inl no_current_token | t # rest \<Rightarrow> Inr (ttype t))"

definition expect :: "TokenType \<Rightarrow> Token list \<Rightarrow> error + (Token \<times> Token list)" where
  "expect token_type ts =
     (case ts of
        [] \<Rightarrow> Inl no_current_token
      | t # rest \<Rightarrow>
          if ttype t \<noteq> token_type then
            Inl (ValueError (''Expected '' @ token_type_str token_type @ '', got ''
                   @ token_type_str (ttype t) @ '' at position '' @ str_nat (tposition t)))
          else Inr (t, rest))"

definition parse_value :: "Token list \<Rightarrow> error + (pyval \<times> Token list)" where
  "parse_value ts =
     (case ts of
        [] \<Rightarrow> Inl no_current_token
      | t # rest \<Rightarrow>
          if ttype t = NUMBER then Inr (tvalue t, rest)
          else if ttype t = STRING then Inr (tvalue t, rest)
          else Inl (ValueError (''Expected value, got '' @ token_type_str (ttype t))))"

definition operator_map :: "(TokenType \<times> string) list" where
  "operator_map =
     [(EQUALS, ''=''), (GREATER, ''>''), (LESS, ''<''), (GREATER_EQ, ''>=''),
      (LESS_EQ, ''<=''), (NOT_EQ, ''!='')]"

definition parse_condition :: "Token list \<Rightarrow> error + (WhereClause \<times> Token list)" where
  "parse_condition ts =
     bind (expect IDENTIFIER ts) (\<lambda>(tok, ts1).
       let column = as_str (tvalue tok) in
       (case ts1 of
          [] \<Rightarrow> Inl no_current_token
        | t # ts2 \<Rightarrow>
          (case map_of operator_map (ttype t) of
             None \<Rightarrow> Inl (ValueError (''Expected comparison operator, got '' @ token_type_str (ttype t)))
           | Some operator \<Rightarrow>
               bind (parse_value ts2) (\<lambda>(v, ts3). Inr (Condition column operator v, ts3)))))"

lemma expect_shorter: "expect tt ts = Inr (tok, rest) \<Longrightarrow> length rest < length ts"
  by (auto simp: expect_def split: list.splits if_splits)

lemma parse_value_shorter: "parse_value ts = Inr (v, rest) \<Longrightarrow> length rest < length ts"
  by (auto simp: parse_value_def split: list.splits if_splits)

lemma parse_condition_shorter: "parse_condition ts = Inr (c, rest) \<Longrightarrow> length rest < length ts"
  by (auto simp: parse_condition_def bind_def Let_def split: list.splits option.splits sum.splits
      dest!: expect_shorter parse_value_shorter)

text \<open>
  The loop of \<open>parse_where\<close>: while the current token is AND or OR, take its value as the
  operator, read the next condition and make the tree built so far the left operand.
\<close>

function where_loop :: "WhereClause \<Rightarrow> Token list \<Rightarrow> error + (WhereClause \<times> Token list)" where
  "where_loop left ts =
     (case ts of
        [] \<Rightarrow> Inl no_current_token
      | t # rest \<Rightarrow>
          if ttype t = AND \<or> ttype t = OR then
            (case parse_condition rest of
               Inl e \<Rightarrow> Inl e
             | Inr (right, ts') \<Rightarrow> where_loop (CompoundCondition left (as_str (tvalue t)) right) ts')
          else Inr (left, ts))"
  by pat_completeness auto
termination
proof (relation "measure (\<lambda>(left, ts). length ts)", goal_cases)
  case 1
  show ?case by simp
next
  case (2 left ts t rest x2 right ts')
  then show ?case using parse_condition_shorter [of rest right ts'] by auto
qed

definition parse_where :: "Token list \<Rightarrow> error + (WhereClause \<times> Token list)" where
  "parse_where ts = bind (parse_condition ts) (\<lambda>(left, ts1). where_loop left ts1)"

text \<open>
  The loops over comma-separated lists: \<open>while current_token.type == COMMA\<close>, skip the
  comma and append the next identifier, value or column definition.
\<close>

function identifier_loop :: "string list \<Rightarrow> Token list \<Rightarrow> error + (string list \<times> Token list)" where
  "identifier_loop columns ts =
     (case ts of
        [] \<Rightarrow> Inl no_current_token
      | t # rest \<Rightarrow>
          if ttype t = COMMA then
            (case expect IDENTIFIER rest of
               Inl e \<Rightarrow> Inl e
             | Inr (tok, ts') \<Rightarrow> identifier_loop (columns @ [as_str (tvalue tok)]) ts')
          else Inr (columns, ts))"
  by pat_completeness auto
termination
proof (relation "measure (\<lambda>(columns, ts). length ts)", goal_cases)
  case 1
  show ?case by simp
next
  case (2 columns ts t rest x2 tok ts')
  then show ?case using expect_shorter [of IDENTIFIER rest tok ts'] by auto
qed

function value_loop :: "pyval list \<Rightarrow> Token list \<Rightarrow> error + (pyval list \<times> Token list)" where
  "value_loop vals ts =
     (case ts of
        [] \<Rightarrow> Inl no_current_token
      | t # rest \<Rightarrow>
          if ttype t = COMMA then
            (case parse_value rest of
               Inl e \<Rightarrow> Inl e
             | Inr (v, ts') \<Rightarrow> value_loop (vals @ [v]) ts')
          else Inr (vals, ts))"
  by pat_completeness auto
termination
proof (relation "measure (\<lambda>(vals, ts). length ts)", goal_cases)
  case 1
  show ?case by simp
next
  case (2 vals ts t rest x2 v ts')
  then show ?case using parse_value_shorter [of rest v ts'] by auto
qed

definition parse_column_definition :: "Token list \<Rightarrow> error + (Column \<times> Token list)" where
  "parse_column_definition ts =
     bind (expect IDENTIFIER ts) (\<lambda>(tok, ts1).
       let column_name = as_str (tvalue tok) in
       bind (current_type ts1) (\<lambda>tt.
         if tt = INT_KW then
           Inr (\<lparr>col_name = column_name, data_type = Some ''INT'', col_size = PNone\<rparr>, tl ts1)
         else if tt = VARCHAR then
           (let ts2 = tl ts1 in
            bind (current_type ts2) (\<lambda>tt2.
              if tt2 = LPAREN then
                bind (expect NUMBER (tl ts2)) (\<lambda>(num, ts3).
                  bind (expect RPAREN ts3) (\<lambda>(rp, ts4).
                    Inr (\<lparr>col_name = column_name, data_type = Some ''VARCHAR'',
                           col_size = tvalue num\<rparr>, ts4)))
              else
                Inr (\<lparr>col_name = column_name, data_type = Some ''VARCHAR'', col_size = PNone\<rparr>, ts2)))
         else Inl (ValueError (''Expected data type, got '' @ token_type_str tt))))"

lemma parse_column_definition_shorter:
  "parse_column_definition ts = Inr (c, rest) \<Longrightarrow> length rest < length ts"
  by (auto simp: parse_column_definition_def bind_def Let_def current_type_def
      split: list.splits sum.splits if_splits dest!: expect_shorter)

function column_loop :: "Column list \<Rightarrow> Token list \<Rightarrow> error + (Column list \<times> Token list)" where
  "column_loop columns ts =
     (case ts of
        [] \<Rightarrow> Inl no_current_token
      | t # rest \<Rightarrow>
          if ttype t = COMMA then
            (case parse_column_definition rest of
               Inl e \<Rightarrow> Inl e
             | Inr (c, ts') \<Rightarrow> column_loop (columns @ [c]) ts')
          else Inr (columns, ts))"
  by pat_completeness auto
termination
proof (relation "measure (\<lambda>(columns, ts). length ts)", goal_cases)
  case 1
  show ?case by simp
next
  case (2 columns ts t rest x2 c ts')
  then show ?case using parse_column_definition_shorter [of rest c ts'] by auto
qed

definition parse_select :: "Token list \<Rightarrow> error + Statement" where
  "parse_select ts =
     bind (expect SELECT ts) (\<lambda>(kw, ts1).
     bind (current_type ts1) (\<lambda>tt.
     bind (if tt = STAR then Inr ([''*''], tl ts1)
           else bind (expect IDENTIFIER ts1) (\<lambda>(tok, ts2). identifier_loop [as_str (tvalue tok)] ts2))
       (\<lambda>(columns, ts3).
     bind (expect FROM ts3) (\<lambda>(kw2, ts4).
     bind (expect IDENTIFIER ts4) (\<lambda>(tok, ts5).
       let table = as_str (tvalue tok) in
     bind (current_type ts5) (\<lambda>tt2.
       if tt2 = WHERE then
         bind (parse_where (tl ts5)) (\<lambda>(w, ts6). Inr (SelectStatement columns table (Some w)))
       else Inr (SelectStatement columns table None)))))))"

definition parse_insert :: "Token list \<Rightarrow> error + Statement" where
  "parse_insert ts =
     bind (expect INSERT ts) (\<lambda>(kw, ts1).
     bind (expect INTO ts1) (\<lambda>(kw2, ts2).
     bind (expect IDENTIFIER ts2) (\<lambda>(tok, ts3).
       let table = as_str (tvalue tok) in
     bind (expect LPAREN ts3) (\<lambda>(lp, ts4).
     bind (expect IDENTIFIER ts4) (\<lambda>(tok2, ts5).
     bind (identifier_loop [as_str (tvalue tok2)] ts5) (\<lambda>(columns, ts6).
     bind (expect RPAREN ts6) (\<lambda>(rp, ts7).
     bind (expect VALUES ts7) (\<lambda>(kw3, ts8).
     bind (expect LPAREN ts8) (\<lambda>(lp2, ts9).
     bind (parse_value ts9) (\<lambda>(v, ts10).
     bind (value_loop [v] ts10) (\<lambda>(vals, ts11).
     bind (expect RPAREN ts11) (\<lambda>(rp2, ts12).
       Inr (InsertStatement table columns vals)))))))))))))"

definition parse_create_table :: "Token list \<Rightarrow> error + Statement" where
  "parse_create_table ts =
     bind (expect CREATE ts) (\<lambda>(kw, ts1).
     bind (expect TABLE ts1) (\<lambda>(kw2, ts2).
     bind (expect IDENTIFIER ts2) (\<lambda>(tok, ts3).
       let table = as_str (tvalue tok) in
     bind (expect LPAREN ts3) (\<lambda>(lp, ts4).
     bind (parse_column_definition ts4) (\<lambda>(c, ts5).
     bind (column_loop [c] ts5) (\<lambda>(columns, ts6).
     bind (expect RPAREN ts6) (\<lambda>(rp, ts7).
       Inr (CreateTableStatement table columns))))))))"

definition parse :: "Token list \<Rightarrow> error + Statement" where
  "parse ts =
     bind (current_type ts) (\<lambda>tt.
       if tt = SELECT then parse_select ts
       else if tt = INSERT then parse_insert ts
       else if tt = CREATE then parse_create_table ts
       else Inl (ValueError (''Unexpected statement starting with '' @ token_type_str tt)))"

section \<open>Table store and storage engine (storage.py)\<close>

text \<open>
  A row is a \<open>dict\<close> from column names to values, kept as the list of its items in
  insertion order. \<open>row[k]\<close> and \<open>k in row\<close> read the first item with key \<open>k\<close>;
  \<open>dict_set\<close> is \<open>d[k] = v\<close> (the value of an existing key is replaced where it stands, a
  new key is added at the end), and \<open>dict_of\<close> is \<open>dict(pairs)\<close>, which sets the pairs
  one after the other.
\<close>

type_synonym row = "(string \<times> pyval) list"

fun dict_set :: "row \<Rightarrow> string \<Rightarrow> pyval \<Rightarrow> row" where
  "dict_set [] k v = [(k, v)]"
| "dict_set ((k', v') # d) k v = (if k' = k then (k, v) # d else (k', v') # dict_set d k v)"

definition dict_of :: "(string \<times> pyval) list \<Rightarrow> row" where
  "dict_of pairs = foldl (\<lambda>d (k, v). dict_set d k v) [] pairs"

record Table =
  name :: string
  columns :: "Column list"
  rows :: "row list"

definition get_column_names :: "Table \<Rightarrow> string list" where
  "get_column_names t = map col_name (columns t)"

text \<open>The first loop of \<open>validate_row\<close>: every key of the row names a column.\<close>

fun check_keys :: "string \<Rightarrow> string list \<Rightarrow> string list \<Rightarrow> error + unit" where
  "check_keys tname column_names [] = Inr ()"
| "check_keys tname column_names (key # keys) =
     (if key \<notin> set column_names then
        Inl (ValueError (''Column '' @ [quote] @ key @ [quote] @ '' does not exist in table ''
               @ [quote] @ tname @ [quote]))
      else check_keys tname column_names keys)"

text \<open>
  The body of the second loop, for one column. \<open>isinstance(value, int)\<close> holds of an
  \<open>int\<close> only and \<open>isinstance(value, str)\<close> of a \<open>str\<close> only; \<open>col.size and
  len(value) > col.size\<close> compares only when the size is truthy.
\<close>

definition check_column :: "Column \<Rightarrow> row \<Rightarrow> error + unit" where
  "check_column col row =
     (case map_of row (col_name col) of
        None \<Rightarrow> Inr ()
      | Some v \<Rightarrow>
          if data_type col = Some ''INT'' then
            (case v of
               PInt i \<Rightarrow> Inr ()
             | _ \<Rightarrow> Inl (ValueError (''Column '' @ [quote] @ col_name col @ [quote]
                          @ '' expects INT, got '' @ type_name v)))
          else if data_type col = Some ''VARCHAR'' then
            (case v of
               PStr s \<Rightarrow>
                 if truthy (col_size col) then
                   bind (py_cmp ''>'' (PInt (int (length s))) (col_size col)) (\<lambda>too_long.
                     if too_long then
                       Inl (ValueError (''Value for '' @ [quote] @ col_name col @ [quote]
                              @ '' exceeds maximum length of '' @ py_str (col_size col)))
                     else Inr ())
                 else Inr ()
             | _ \<Rightarrow> Inl (ValueError (''Column '' @ [quote] @ col_name col @ [quote]
                          @ '' expects VARCHAR, got '' @ type_name v)))
          else Inr ())"

fun check_columns :: "Column list \<Rightarrow> row \<Rightarrow> error + unit" where
  "check_columns [] row = Inr ()"
| "check_columns (col # cols) row =
     (case check_column col row of Inl e \<Rightarrow> Inl e | Inr u \<Rightarrow> check_columns cols row)"

definition validate_row :: "Table \<Rightarrow> row \<Rightarrow> error + bool" where
  "validate_row t row =
     bind (check_keys (name t) (get_column_names t) (map fst row)) (\<lambda>u.
     bind (check_columns (columns t) row) (\<lambda>u'. Inr True))"

text \<open>
  \<open>Table.insert\<close> (\<open>Table_insert\<close> here: \<open>insert\<close> is the name of a set operation of
  HOL) mutates the table: the result is the table after the call together with
  what the call returned or raised.
\<close>

definition Table_insert :: "Table \<Rightarrow> row \<Rightarrow> Table \<times> (error + unit)" where
  "Table_insert t row =
     (case validate_row t row of
        Inl e \<Rightarrow> (t, Inl e)
      | Inr ok \<Rightarrow> (t\<lparr>rows := rows t @ [row]\<rparr>, Inr ()))"

text \<open>
  The serialized record of \<open>to_dict\<close> is a \<open>dict\<close> of a string, a list of dicts and a list of
  rows: a value, a list or a dict with string keys.
\<close>

datatype pyobj = Val pyval | Lst "pyobj list" | Dct "(string \<times> pyobj) list"

definition column_to_dict :: "Column \<Rightarrow> pyobj" where
  "column_to_dict col =
     Dct [(''name'', Val (PStr (col_name col))),
          (''data_type'', Val (case data_type col of None \<Rightarrow> PNone | Some d \<Rightarrow> PStr d)),
          (''size'', Val (col_size col))]"

definition row_to_obj :: "row \<Rightarrow> pyobj" where
  "row_to_obj r = Dct (map (\<lambda>(k, v). (k, Val v)) r)"

definition to_dict :: "Table \<Rightarrow> pyobj" where
  "to_dict t =
     Dct [(''name'', Val (PStr (name t))),
          (''columns'', Lst (map column_to_dict (columns t))),
          (''rows'', Lst (map row_to_obj (rows t)))]"

text \<open>
  \<open>from_dict\<close> reads the record by key: \<open>d[key]\<close> raises KeyError on a missing key,
  \<open>d.get(key)\<close> gives \<open>None\<close>. The tables of this theory are typed as the annotations of the
  source say (a \<open>str\<close> name, a list of columns, a list of dicts of values); a record whose
  entries have another shape is outside of them, and \<open>from_dict\<close> gives \<open>ill_typed\<close> for it.
\<close>

definition ill_typed :: error where
  "ill_typed = TypeError ''the record is not of the shape that to_dict writes''"

definition getitem :: "pyobj \<Rightarrow> string \<Rightarrow> error + pyobj" where
  "getitem d key =
     (case d of
        Dct items \<Rightarrow> (case map_of items key of None \<Rightarrow> Inl (KeyError key) | Some v \<Rightarrow> Inr v)
      | _ \<Rightarrow> Inl ill_typed)"

definition get_or_none :: "pyobj \<Rightarrow> string \<Rightarrow> error + pyobj" where
  "get_or_none d key =
     (case d of
        Dct items \<Rightarrow> (case map_of items key of None \<Rightarrow> Inr (Val PNone) | Some v \<Rightarrow> Inr v)
      | _ \<Rightarrow> Inl ill_typed)"

fun map_err :: "('a \<Rightarrow> error + 'b) \<Rightarrow> 'a list \<Rightarrow> error + 'b list" where
  "map_err f [] = Inr []"
| "map_err f (x # xs) =
     (case f x of
        Inl e \<Rightarrow> Inl e
      | Inr y \<Rightarrow> (case map_err f xs of Inl e \<Rightarrow> Inl e | Inr ys \<Rightarrow> Inr (y # ys)))"

definition column_from_dict :: "pyobj \<Rightarrow> error + Column" where
  "column_from_dict col_data =
     bind (getitem col_data ''name'') (\<lambda>n.
     bind (getitem col_data ''data_type'') (\<lambda>dt.
     bind (get_or_none col_data ''size'') (\<lambda>sz.
       (case (n, dt, sz) of
          (Val (PStr n'), Val PNone, Val sz') \<Rightarrow>
            Inr \<lparr>col_name = n', data_type = None, col_size = sz'\<rparr>
        | (Val (PStr n'), Val (PStr dt'), Val sz') \<Rightarrow>
            Inr \<lparr>col_name = n', data_type = Some dt', col_size = sz'\<rparr>
        | _ \<Rightarrow> Inl ill_typed))))"

definition item_from_obj :: "string \<times> pyobj \<Rightarrow> error + (string \<times> pyval)" where
  "item_from_obj kv = (case kv of (k, Val v) \<Rightarrow> Inr (k, v) | _ \<Rightarrow> Inl ill_typed)"

definition row_from_obj :: "pyobj \<Rightarrow> error + row" where
  "row_from_obj r = (case r of Dct items \<Rightarrow> map_err item_from_obj items | _ \<Rightarrow> Inl ill_typed)"

definition from_dict :: "pyobj \<Rightarrow> error + Table" where
  "from_dict data =
     bind (getitem data ''columns'') (\<lambda>cols.
     bind (case cols of Lst cs \<Rightarrow> map_err column_from_dict cs | _ \<Rightarrow> Inl ill_typed) (\<lambda>columns'.
     bind (getitem data ''name'') (\<lambda>n.
     bind (getitem data ''rows'') (\<lambda>rs.
       (case (n, rs) of
          (Val (PStr n'), Lst rs') \<Rightarrow>
            bind (map_err row_from_obj rs') (\<lambda>rows'.
              Inr \<lparr>name = n', columns = columns', rows = rows'\<rparr>)
        | _ \<Rightarrow> Inl ill_typed)))))"

text \<open>
  The storage engine: the tables in memory by name, and the files of the database
  directory by file name, each holding the record that \<open>json.dump\<close> wrote. Writing a file
  is taken to succeed, and \<open>json.load\<close> to give back the record that was dumped.
\<close>

record StorageEngine =
  tables :: "string \<rightharpoonup> Table"
  files :: "string \<rightharpoonup> pyobj"

definition save_table :: "StorageEngine \<Rightarrow> Table \<Rightarrow> StorageEngine" where
  "save_table st t = st\<lparr>files := (files st)(name t @ ''.json'' \<mapsto> to_dict t)\<rparr>"

definition create_table :: "StorageEngine \<Rightarrow> string \<Rightarrow> Column list \<Rightarrow> StorageEngine \<times> (error + unit)" where
  "create_table st n cols =
     (if n \<in> dom (tables st) then
        (st, Inl (ValueError (''Table '' @ [quote] @ n @ [quote] @ '' already exists'')))
      else
        (let t = \<lparr>name = n, columns = cols, rows = []\<rparr>;
             st1 = st\<lparr>tables := (tables st)(n \<mapsto> t)\<rparr>
         in (save_table st1 t, Inr ())))"

definition get_table :: "StorageEngine \<Rightarrow> string \<Rightarrow> Table option" where
  "get_table st n = tables st n"

text \<open>
  \<open>insert_row\<close>: \<open>table.insert(row)\<close> mutates the table object that \<open>self.tables\<close> holds, so
  the table after the call is stored back whether the call raised or not; the file is
  written only when it did not raise.
\<close>

definition insert_row :: "StorageEngine \<Rightarrow> string \<Rightarrow> row \<Rightarrow> StorageEngine \<times> (error + unit)" where
  "insert_row st table_name row =
     (case get_table st table_name of
        None \<Rightarrow> (st, Inl (ValueError (''Table '' @ [quote] @ table_name @ [quote] @ '' does not exist'')))
      | Some t \<Rightarrow>
          (case Table_insert t row of
             (t', Inl e) \<Rightarrow> (st\<lparr>tables := (tables st)(table_name \<mapsto> t')\<rparr>, Inl e)
           | (t', Inr u) \<Rightarrow> (save_table (st\<lparr>tables := (tables st)(table_name \<mapsto> t')\<rparr>) t', Inr ())))"

section \<open>Executor (executor.py)\<close>

record QueryResult =
  res_columns :: "string list"
  res_rows :: "row list"
  rows_affected :: int
  message :: "string option"

text \<open>
  \<open>QueryResult.__str__\<close>. \<open>ljust\<close> is \<open>str.ljust\<close> (blanks are added on the right),
  \<open>join\<close> is \<open>sep.join(parts)\<close>, \<open>cell\<close> is \<open>str(row.get(col, ''))\<close>. The dict
  \<open>col_widths\<close> is built by the two loops of the source; every column has its entry from
  the first loop on (lemma \<open>col_widths_defined\<close>), so the lookup \<open>col_widths[col]\<close> finds
  it.
\<close>

definition ljust :: "string \<Rightarrow> nat \<Rightarrow> string" where
  "ljust s w = s @ replicate (w - length s) CHR '' ''"

fun join :: "string \<Rightarrow> string list \<Rightarrow> string" where
  "join sep [] = []"
| "join sep [x] = x"
| "join sep (x # y # zs) = x @ sep @ join sep (y # zs)"

definition cell :: "row \<Rightarrow> string \<Rightarrow> string" where
  "cell row col = py_str (case map_of row col of Some v \<Rightarrow> v | None \<Rightarrow> PStr [])"

definition width_of :: "(string \<rightharpoonup> nat) \<Rightarrow> string \<Rightarrow> nat" where
  "width_of w col = (case w col of Some n \<Rightarrow> n | None \<Rightarrow> 0)"

definition init_widths :: "string list \<Rightarrow> (string \<rightharpoonup> nat)" where
  "init_widths cols = foldl (\<lambda>w col. w(col \<mapsto> length col)) Map.empty cols"

definition widen_row :: "string list \<Rightarrow> (string \<rightharpoonup> nat) \<Rightarrow> row \<Rightarrow> (string \<rightharpoonup> nat)" where
  "widen_row cols w row =
     foldl (\<lambda>w col. w(col \<mapsto> max (width_of w col) (length (cell row col)))) w cols"

definition col_widths :: "QueryResult \<Rightarrow> (string \<rightharpoonup> nat)" where
  "col_widths qr = foldl (widen_row (res_columns qr)) (init_widths (res_columns qr)) (res_rows qr)"

definition render_table :: "QueryResult \<Rightarrow> string" where
  "render_table qr =
     (let w = col_widths qr;
          header = join '' | '' (map (\<lambda>col. ljust col (width_of w col)) (res_columns qr));
          separator = join ''-+-'' (map (\<lambda>col. replicate (width_of w col) CHR ''-'') (res_columns qr));
          row_lines = map (\<lambda>row. join '' | '' (map (\<lambda>col. ljust (cell row col) (width_of w col))
                                                    (res_columns qr))) (res_rows qr);
          result_lines = [header, separator] @ row_lines
                         @ [[newline] @ ''('' @ str_nat (length (res_rows qr)) @ '' rows)'']
      in join [newline] result_lines)"

definition QueryResult_str :: "QueryResult \<Rightarrow> string" where
  "QueryResult_str qr =
     (if (case message qr of None \<Rightarrow> False | Some m \<Rightarrow> m \<noteq> []) then
        (case message qr of None \<Rightarrow> [] | Some m \<Rightarrow> m)
      else if res_rows qr = [] then ''('' @ str_int (rows_affected qr) @ '' rows affected)''
      else render_table qr)"

text \<open>WHERE evaluation.\<close>

definition evaluate_condition :: "row \<Rightarrow> string \<Rightarrow> string \<Rightarrow> pyval \<Rightarrow> error + bool" where
  "evaluate_condition row column operator compare_value =
     (case map_of row column of
        None \<Rightarrow> Inl (ValueError (''Column '' @ [quote] @ column @ [quote] @ '' not found in row''))
      | Some row_value \<Rightarrow>
          if operator = ''='' then Inr (py_eq row_value compare_value)
          else if operator = ''>'' then py_cmp ''>'' row_value compare_value
          else if operator = ''<'' then py_cmp ''<'' row_value compare_value
          else if operator = ''>='' then py_cmp ''>='' row_value compare_value
          else if operator = ''<='' then py_cmp ''<='' row_value compare_value
          else if operator = ''!='' then Inr (\<not> py_eq row_value compare_value)
          else Inl (ValueError (''Unknown operator: '' @ operator)))"

fun evaluate_where :: "row \<Rightarrow> WhereClause \<Rightarrow> error + bool" where
  "evaluate_where row (Condition column operator v) = evaluate_condition row column operator v"
| "evaluate_where row (CompoundCondition left operator right) =
     (case evaluate_where row left of
        Inl e \<Rightarrow> Inl e
      | Inr left_result \<Rightarrow>
          (case evaluate_where row right of
             Inl e \<Rightarrow> Inl e
           | Inr right_result \<Rightarrow>
               if operator = ''AND'' then Inr (left_result \<and> right_result)
               else if operator = ''OR'' then Inr (left_result \<or> right_result)
               else Inl (ValueError (''Unknown logical operator: '' @ operator))))"

text \<open>
  The list comprehension \<open>[row for row in rows if self.evaluate_where(row, where)]\<close>: the
  rows are tried in order, and the first one whose evaluation raises ends the statement.
\<close>

fun filter_rows :: "WhereClause \<Rightarrow> row list \<Rightarrow> error + row list" where
  "filter_rows w [] = Inr []"
| "filter_rows w (row # rs) =
     (case evaluate_where row w of
        Inl e \<Rightarrow> Inl e
      | Inr keep \<Rightarrow>
          (case filter_rows w rs of
             Inl e \<Rightarrow> Inl e
           | Inr kept \<Rightarrow> Inr (if keep then row # kept else kept)))"

text \<open>The loop that validates the requested columns: the first unknown name raises.\<close>

fun requested_columns_exist :: "string \<Rightarrow> string list \<Rightarrow> string list \<Rightarrow> error + unit" where
  "requested_columns_exist tname table_columns [] = Inr ()"
| "requested_columns_exist tname table_columns (col # cols) =
     (if col \<notin> set table_columns then
        Inl (ValueError (''Column '' @ [quote] @ col @ [quote] @ '' does not exist in table ''
               @ [quote] @ tname @ [quote]))
      else requested_columns_exist tname table_columns cols)"

text \<open>\<open>{col: row.get(col) for col in columns}\<close>\<close>

definition project :: "string list \<Rightarrow> row \<Rightarrow> row" where
  "project cols row =
     dict_of (map (\<lambda>col. (col, case map_of row col of Some v \<Rightarrow> v | None \<Rightarrow> PNone)) cols)"

definition execute_select :: "StorageEngine \<Rightarrow> string list \<Rightarrow> string \<Rightarrow> WhereClause option
    \<Rightarrow> error + QueryResult" where
  "execute_select st sel_columns table wh =
     (case get_table st table of
        None \<Rightarrow> Inl (ValueError (''Table '' @ [quote] @ table @ [quote] @ '' does not exist''))
      | Some t \<Rightarrow>
          bind (case wh of None \<Rightarrow> Inr (rows t) | Some w \<Rightarrow> filter_rows w (rows t)) (\<lambda>kept.
          bind (if sel_columns = [''*''] then Inr (get_column_names t)
                else bind (requested_columns_exist table (get_column_names t) sel_columns)
                       (\<lambda>u. Inr sel_columns)) (\<lambda>cols.
            Inr \<lparr>res_columns = cols, res_rows = map (project cols) kept,
                 rows_affected = 0, message = None\<rparr>)))"

definition execute_insert :: "StorageEngine \<Rightarrow> string \<Rightarrow> string list \<Rightarrow> pyval list
    \<Rightarrow> StorageEngine \<times> (error + QueryResult)" where
  "execute_insert st table ins_columns vals =
     (let row = dict_of (zip ins_columns vals)
      in case insert_row st table row of
           (st', Inl e) \<Rightarrow> (st', Inl e)
         | (st', Inr u) \<Rightarrow>
             (st', Inr \<lparr>res_columns = [], res_rows = [], rows_affected = 1,
                        message = Some (''1 row inserted into '' @ [quote] @ table @ [quote])\<rparr>))"

definition execute_create_table :: "StorageEngine \<Rightarrow> string \<Rightarrow> Column list
    \<Rightarrow> StorageEngine \<times> (error + QueryResult)" where
  "execute_create_table st table cols =
     (case create_table st table cols of
        (st', Inl e) \<Rightarrow> (st', Inl e)
      | (st', Inr u) \<Rightarrow>
          (st', Inr \<lparr>res_columns = [], res_rows = [], rows_affected = 0,
                     message = Some (''Table '' @ [quote] @ table @ [quote] @ '' created successfully'')\<rparr>))"

fun executor_execute :: "StorageEngine \<Rightarrow> Statement \<Rightarrow> StorageEngine \<times> (error + QueryResult)" where
  "executor_execute st (SelectStatement sel_columns table wh) = (st, execute_select st sel_columns table wh)"
| "executor_execute st (InsertStatement table ins_columns vals) = execute_insert st table ins_columns vals"
| "executor_execute st (CreateTableStatement table cols) = execute_create_table st table cols"

section \<open>The engine (sql_engine.py)\<close>

text \<open>
  \<open>SQLEngine.execute\<close>: the three steps run inside \<open>try\<close>, and \<open>except Exception as e\<close>
  turns whatever one of them raised into \<open>QueryResult(message=f"Error: {str(e)}")\<close>. The
  storage engine after the call is returned with the result.
\<close>

definition error_result :: "error \<Rightarrow> QueryResult" where
  "error_result e =
     \<lparr>res_columns = [], res_rows = [], rows_affected = 0, message = Some (''Error: '' @ err_str e)\<rparr>"

definition execute :: "(string \<Rightarrow> pyfloat) \<Rightarrow> StorageEngine \<Rightarrow> string \<Rightarrow> StorageEngine \<times> QueryResult" where
  "execute fl st sql =
     (case tokenize fl sql of
        Inl e \<Rightarrow> (st, error_result e)
      | Inr tokens \<Rightarrow>
          (case parse tokens of
             Inl e \<Rightarrow> (st, error_result e)
           | Inr ast \<Rightarrow>
               (case executor_execute st ast of
                  (st', Inl e) \<Rightarrow> (st', error_result e)
                | (st', Inr result) \<Rightarrow> (st', result))))"

section \<open>A table and a database for the examples\<close>

text \<open>
  The table of the source's own validation test, \<open>CREATE TABLE test (id INT, code
  VARCHAR(10))\<close>, after \<open>INSERT INTO test (id, code) VALUES (1, 'ABC')\<close>, and the
  database that holds it.
\<close>

definition example_table :: Table where
  "example_table =
     \<lparr>name = ''test'',
      columns = [\<lparr>col_name = ''id'', data_type = Some ''INT'', col_size = PNone\<rparr>,
                 \<lparr>col_name = ''code'', data_type = Some ''VARCHAR'', col_size = PInt 10\<rparr>],
      rows = [[(''id'', PInt 1), (''code'', PStr ''ABC'')]]\<rparr>"

definition example_storage :: StorageEngine where
  "example_storage =
     \<lparr>tables = [''test'' \<mapsto> example_table], files = [''test.json'' \<mapsto> to_dict example_table]\<rparr>"

text \<open>
  The table of the spec's scenario A, \<open>CREATE TABLE users (id INT, name VARCHAR(50), age
  INT)\<close> with the rows of Alice, Bob and Charlie, its database, and the WHERE clause
  \<open>age > 26 AND age < 32\<close>.
\<close>

definition users_table :: Table where
  "users_table =
     \<lparr>name = ''users'',
      columns = [\<lparr>col_name = ''id'', data_type = Some ''INT'', col_size = PNone\<rparr>,
                 \<lparr>col_name = ''name'', data_type = Some ''VARCHAR'', col_size = PInt 50\<rparr>,
                 \<lparr>col_name = ''age'', data_type = Some ''INT'', col_size = PNone\<rparr>],
      rows = [[(''id'', PInt 1), (''name'', PStr ''Alice''), (''age'', PInt 25)],
              [(''id'', PInt 2), (''name'', PStr ''Bob''), (''age'', PInt 30)],
              [(''id'', PInt 3), (''name'', PStr ''Charlie''), (''age'', PInt 35)]]\<rparr>"

definition users_storage :: StorageEngine where
  "users_storage =
     \<lparr>tables = [''users'' \<mapsto> users_table], files = [''users.json'' \<mapsto> to_dict users_table]\<rparr>"

definition age_between :: WhereClause where
  "age_between =
     CompoundCondition (Condition ''age'' ''>'' (PInt 26)) ''AND'' (Condition ''age'' ''<'' (PInt 32))"

text \<open>The result of scenario A: the row of Bob, projected to \<open>name\<close> and \<open>age\<close>.\<close>

definition bob_result :: QueryResult where
  "bob_result =
     \<lparr>res_columns = [''name'', ''age''],
      res_rows = [[(''name'', PStr ''Bob''), (''age'', PInt 30)]],
      rows_affected = 0, message = None\<rparr>"

text \<open>
  The width of a column as the spec words it, "the widest value or header": the greatest
  length among the column's name and the texts of its cells. It is compared below with
  the dict \<open>col_widths\<close> that the source builds.
\<close>

definition spec_width :: "QueryResult \<Rightarrow> string \<Rightarrow> nat" where
  "spec_width qr col = Max (insert (length col) ((\<lambda>row. length (cell row col)) ` set (res_rows qr)))"

text \<open>
  A conversion \<open>float(text)\<close> for the examples: the decimal value of the text, which is
  the double itself for the literals used below, printed as the text.
\<close>

definition sample_float :: "string \<Rightarrow> pyfloat" where
  "sample_float s =
     Float (Some (of_int (int_of_digits (filter isdecimal s)) / 10 ^ length (takeWhile isdecimal (rev s)))) s"

text \<open>
  The invariant of the lexer's tokens that \<open>as_str\<close> rests on: every token but a NUMBER
  and the EOF has a \<open>str\<close> value.
\<close>

definition str_valued :: "Token \<Rightarrow> bool" where
  "str_valued t = (ttype t = NUMBER \<or> ttype t = EOF \<or> (\<exists>v. tvalue t = PStr v))"

section \<open>The parser folds AND and OR to the left\<close>

lemma where_loop_fold:
  assumes "\<forall>(k, ts, c) \<in> set items.
             (ttype k = AND \<or> ttype k = OR) \<and> (\<forall>r. parse_condition (ts @ r) = Inr (c, r))"
    and "rest \<noteq> []" and "ttype (hd rest) \<noteq> AND" and "ttype (hd rest) \<noteq> OR"
  shows "where_loop left (concat (map (\<lambda>(k, ts, c). k # ts) items) @ rest)
         = Inr (foldl (\<lambda>l (k, ts, c). CompoundCondition l (as_str (tvalue k)) c) left items, rest)"
  using assms
proof (induction items arbitrary: left)
  case Nil
  then show ?case by (cases rest) auto
next
  case (Cons item items)
  obtain k ts c where item: "item = (k, ts, c)" by (cases item)
  from Cons.prems(1) item have k: "ttype k = AND \<or> ttype k = OR"
    and pc: "\<And>r. parse_condition (ts @ r) = Inr (c, r)" by auto
  from Cons.prems(1) have later: "\<forall>(k, ts, c) \<in> set items.
      (ttype k = AND \<or> ttype k = OR) \<and> (\<forall>r. parse_condition (ts @ r) = Inr (c, r))"
    by simp
  have "where_loop left (concat (map (\<lambda>(k, ts, c). k # ts) (item # items)) @ rest)
        = where_loop (CompoundCondition left (as_str (tvalue k)) c)
            (concat (map (\<lambda>(k, ts, c). k # ts) items) @ rest)"
    using k pc [of "concat (map (\<lambda>(k, ts, c). k # ts) items) @ rest"] by (simp add: item)
  also have "\<dots> = Inr (foldl (\<lambda>l (k, ts, c). CompoundCondition l (as_str (tvalue k)) c)
                         (CompoundCondition left (as_str (tvalue k)) c) items, rest)"
    using Cons.IH [OF later Cons.prems(2,3,4)] .
  finally show ?case by (simp add: item)
qed

lemma parse_condition_tokens:
  assumes "ttype a = IDENTIFIER" and "map_of operator_map (ttype b) = Some opr"
    and "ttype c = NUMBER \<or> ttype c = STRING"
  shows "parse_condition (a # b # c # r) = Inr (Condition (as_str (tvalue a)) opr (tvalue c), r)"
  using assms by (auto simp: parse_condition_def parse_value_def expect_def bind_def)

text \<open>
  C6. A WHERE clause \<open>c0 op1 c1 ... opn cn\<close> is a token list \<open>ts0 @ [k1] @ ts1 @ ... @ [kn]
  @ tsn @ rest\<close>: each \<open>tsi\<close> is a token list that \<open>parse_condition\<close> reads as the condition
  \<open>ci\<close> whatever follows it (an identifier, a comparison operator and a literal: lemma
  \<open>parse_condition_tokens\<close>), each \<open>ki\<close> is an AND or an OR token, and \<open>rest\<close> starts with a
  token that is neither (the lexer ends every token list with EOF). \<open>parse_where\<close> consumes
  the clause up to \<open>rest\<close> and returns the left fold of the conditions: the tree built so far
  is the left operand of each new \<open>CompoundCondition\<close>, whether the connective is AND or OR.
\<close>

theorem parse_where_left_associative:
  assumes "\<forall>r. parse_condition (ts0 @ r) = Inr (c0, r)"
    and "\<forall>(k, ts, c) \<in> set items.
           (ttype k = AND \<or> ttype k = OR) \<and> (\<forall>r. parse_condition (ts @ r) = Inr (c, r))"
    and "rest \<noteq> []" and "ttype (hd rest) \<noteq> AND" and "ttype (hd rest) \<noteq> OR"
  shows "parse_where (ts0 @ concat (map (\<lambda>(k, ts, c). k # ts) items) @ rest)
         = Inr (foldl (\<lambda>left (k, ts, c). CompoundCondition left (as_str (tvalue k)) c) c0 items, rest)"
  using assms(1) where_loop_fold [OF assms(2-5)] by (simp add: parse_where_def bind_def)

text \<open>The witness: \<open>a = 1 AND b = 2 OR c = 3\<close> parses as \<open>(a = 1 AND b = 2) OR c = 3\<close>.\<close>

lemma tokenize_where_example:
  "tokenize fl ''a = 1 AND b = 2 OR c = 3'' =
     Inr [\<lparr>ttype = IDENTIFIER, tvalue = PStr ''a'', tposition = 0\<rparr>,
          \<lparr>ttype = EQUALS, tvalue = PStr ''='', tposition = 2\<rparr>,
          \<lparr>ttype = NUMBER, tvalue = PInt 1, tposition = 4\<rparr>,
          \<lparr>ttype = AND, tvalue = PStr ''AND'', tposition = 6\<rparr>,
          \<lparr>ttype = IDENTIFIER, tvalue = PStr ''b'', tposition = 10\<rparr>,
          \<lparr>ttype = EQUALS, tvalue = PStr ''='', tposition = 12\<rparr>,
          \<lparr>ttype = NUMBER, tvalue = PInt 2, tposition = 14\<rparr>,
          \<lparr>ttype = OR, tvalue = PStr ''OR'', tposition = 16\<rparr>,
          \<lparr>ttype = IDENTIFIER, tvalue = PStr ''c'', tposition = 19\<rparr>,
          \<lparr>ttype = EQUALS, tvalue = PStr ''='', tposition = 21\<rparr>,
          \<lparr>ttype = NUMBER, tvalue = PInt 3, tposition = 23\<rparr>,
          \<lparr>ttype = EOF, tvalue = PNone, tposition = 24\<rparr>]"
  by code_simp

theorem parse_where_left_associative_witness:
  "\<forall>fl. bind (tokenize fl ''a = 1 AND b = 2 OR c = 3'') parse_where
     = Inr (CompoundCondition
              (CompoundCondition (Condition ''a'' ''='' (PInt 1)) ''AND'' (Condition ''b'' ''='' (PInt 2)))
              ''OR'' (Condition ''c'' ''='' (PInt 3)),
            [\<lparr>ttype = EOF, tvalue = PNone, tposition = 24\<rparr>])"
  using parse_where_left_associative
    [of "[\<lparr>ttype = IDENTIFIER, tvalue = PStr ''a'', tposition = 0\<rparr>,
          \<lparr>ttype = EQUALS, tvalue = PStr ''='', tposition = 2\<rparr>,
          \<lparr>ttype = NUMBER, tvalue = PInt 1, tposition = 4\<rparr>]"
        "Condition ''a'' ''='' (PInt 1)"
        "[(\<lparr>ttype = AND, tvalue = PStr ''AND'', tposition = 6\<rparr>,
           [\<lparr>ttype = IDENTIFIER, tvalue = PStr ''b'', tposition = 10\<rparr>,
            \<lparr>ttype = EQUALS, tvalue = PStr ''='', tposition = 12\<rparr>,
            \<lparr>ttype = NUMBER, tvalue = PInt 2, tposition = 14\<rparr>],
           Condition ''b'' ''='' (PInt 2)),
          (\<lparr>ttype = OR, tvalue = PStr ''OR'', tposition = 16\<rparr>,
           [\<lparr>ttype = IDENTIFIER, tvalue = PStr ''c'', tposition = 19\<rparr>,
            \<lparr>ttype = EQUALS, tvalue = PStr ''='', tposition = 21\<rparr>,
            \<lparr>ttype = NUMBER, tvalue = PInt 3, tposition = 23\<rparr>],
           Condition ''c'' ''='' (PInt 3))]"
        "[\<lparr>ttype = EOF, tvalue = PNone, tposition = 24\<rparr>]"]
  by (simp add: parse_condition_tokens operator_map_def tokenize_where_example bind_def)

section \<open>Number literals\<close>



lemma dot_not_decimal: "\<not> isdecimal CHR ''.''"
  by (simp add: isdecimal_def)









section \<open>The row of an INSERT\<close>

lemma dict_set_keyset: "fst ` set (dict_set d k v) = insert k (fst ` set d)"
proof (induction d)
  case Nil
  show ?case by simp
next
  case (Cons p d)
  obtain k' v' where p: "p = (k', v')" by (cases p)
  show ?case
  proof (cases "k' = k")
    case True
    then show ?thesis by (simp add: p)
  next
    case False
    then show ?thesis by (simp add: p Cons.IH insert_commute)
  qed
qed



lemma foldl_dict_set_keyset:
  "fst ` set (foldl (\<lambda>d (k, v). dict_set d k v) d pairs) = fst ` set d \<union> fst ` set pairs"
  by (induction pairs arbitrary: d) (simp_all add: dict_set_keyset split_beta)



lemma dict_of_keyset: "fst ` set (dict_of pairs) = fst ` set pairs"
  by (simp add: dict_of_def foldl_dict_set_keyset)





lemma map_of_dict_set: "map_of (dict_set d k v) = (map_of d)(k \<mapsto> v)"
  by (induction d) auto

lemma map_of_foldl_dict_set:
  "map_of (foldl (\<lambda>d (k, v). dict_set d k v) d pairs) = map_of d ++ map_of (rev pairs)"
  by (induction pairs arbitrary: d) (auto simp: map_of_dict_set split_beta map_add_upd_left)



lemma get_table_save: "get_table (save_table (st\<lparr>tables := m\<rparr>) t) n = m n"
  by (simp add: get_table_def save_table_def)




lemma insert_row_cases:
  "insert_row st table row =
     (case get_table st table of
        None \<Rightarrow> (st, Inl (ValueError (''Table '' @ [quote] @ table @ [quote] @ '' does not exist'')))
      | Some t \<Rightarrow>
          (case validate_row t row of
             Inl e \<Rightarrow> (st, Inl e)
           | Inr ok \<Rightarrow>
               (save_table (st\<lparr>tables := (tables st)(table \<mapsto> t\<lparr>rows := rows t @ [row]\<rparr>)\<rparr>)
                  (t\<lparr>rows := rows t @ [row]\<rparr>), Inr ())))"
proof (cases "get_table st table")
  case None
  then show ?thesis by (simp add: insert_row_def)
next
  case (Some t)
  then have same: "(tables st)(table \<mapsto> t) = tables st" by (auto simp: get_table_def)
  show ?thesis
    using Some same by (cases "validate_row t row") (simp_all add: insert_row_def Table_insert_def)
qed

lemma get_users: "get_table users_storage ''users'' = Some users_table"
  by (simp add: get_table_def users_storage_def)






section \<open>Validation and insertion\<close>

lemma check_keys_Inl_iff:
  "(\<exists>e. check_keys tname cs keys = Inl e) \<longleftrightarrow> (\<exists>key\<in>set keys. key \<notin> set cs)"
  by (induction keys) auto

lemma check_columns_Inl_iff:
  "(\<exists>e. check_columns cols row = Inl e) \<longleftrightarrow> (\<exists>col\<in>set cols. \<exists>e. check_column col row = Inl e)"
  by (induction cols) (auto split: sum.splits)

lemma validate_row_Inl_iff:
  "(\<exists>e. validate_row t row = Inl e) \<longleftrightarrow>
     (\<exists>key\<in>set (map fst row). key \<notin> set (get_column_names t))
     \<or> (\<exists>col\<in>set (columns t). \<exists>e. check_column col row = Inl e)"
proof -
  have "(\<exists>e. validate_row t row = Inl e) \<longleftrightarrow>
          (\<exists>e. check_keys (name t) (get_column_names t) (map fst row) = Inl e)
          \<or> (\<exists>e. check_columns (columns t) row = Inl e)"
    by (auto simp: validate_row_def bind_def split: sum.splits)
  then show ?thesis by (simp only: check_keys_Inl_iff check_columns_Inl_iff)
qed

lemma check_column_Inl_iff:
  "(\<exists>e. check_column col row = Inl e) \<longleftrightarrow>
     (\<exists>v. map_of row (col_name col) = Some v
        \<and> (data_type col = Some ''INT'' \<and> (\<forall>i. v \<noteq> PInt i)
           \<or> data_type col = Some ''VARCHAR''
             \<and> ((\<forall>s. v \<noteq> PStr s)
                \<or> (\<exists>s. v = PStr s \<and> truthy (col_size col)
                      \<and> py_cmp ''>'' (PInt (int (length s))) (col_size col) \<noteq> Inr False))))"
  by (cases "py_cmp ''>'' (PInt (int (length (as_str (the (map_of row (col_name col))))))) (col_size col)")
     (auto simp: check_column_def bind_def split: option.splits pyval.splits)

lemma validate_row_Inr: "validate_row t row = Inr ok \<Longrightarrow> ok"
  by (auto simp: validate_row_def bind_def split: sum.splits)

lemma check_column_float:
  assumes "data_type col = Some ''INT'' \<or> data_type col = Some ''VARCHAR''"
    and "map_of row (col_name col) = Some (PFloat f)"
  shows "\<exists>e. check_column col row = Inl e"
  using assms by (auto simp: check_column_def)

lemma insert_row_unchanged:
  assumes "get_table st n = Some t" and "Table_insert t row = (t, Inl e)"
  shows "insert_row st n row = (st, Inl e)"
proof -
  have "(tables st)(n \<mapsto> t) = tables st"
    using assms(1) by (auto simp: get_table_def)
  then show ?thesis using assms by (simp add: insert_row_def)
qed

text \<open>
  C2. \<open>validate_row\<close> either raises or returns \<open>True\<close>. When it raises (some key of the
  row is not a column, or the check of some column raises: lemma \<open>validate_row_Inl_iff\<close>),
  \<open>Table.insert\<close> raises the same error and leaves the table as it was, and
  \<open>StorageEngine.insert_row\<close> on a database that holds the table leaves the database as it
  was, the tables in memory and the files alike. When it returns, the row is appended at
  the end of the table's rows, whose number grows by exactly one, and \<open>insert_row\<close> stores
  the new table and writes its file.
\<close>

theorem insert_atomic:
  "(case validate_row t row of
      Inl e \<Rightarrow>
        Table_insert t row = (t, Inl e)
        \<and> (\<forall>st n. get_table st n = Some t \<longrightarrow> insert_row st n row = (st, Inl e))
    | Inr ok \<Rightarrow>
        Table_insert t row = (t\<lparr>rows := rows t @ [row]\<rparr>, Inr ())
        \<and> length (rows (fst (Table_insert t row))) = length (rows t) + 1
        \<and> (\<forall>st n. get_table st n = Some t \<longrightarrow>
             insert_row st n row
               = (save_table (st\<lparr>tables := (tables st)(n \<mapsto> t\<lparr>rows := rows t @ [row]\<rparr>)\<rparr>)
                    (t\<lparr>rows := rows t @ [row]\<rparr>), Inr ())))"
proof (cases "validate_row t row")
  case (Inl e)
  then have ti: "Table_insert t row = (t, Inl e)" by (simp add: Table_insert_def)
  show ?thesis using Inl ti insert_row_unchanged [OF _ ti] by simp
next
  case (Inr ok)
  then have ti: "Table_insert t row = (t\<lparr>rows := rows t @ [row]\<rparr>, Inr ())"
    by (simp add: Table_insert_def)
  show ?thesis using Inr ti by (simp add: insert_row_def)
qed

lemma validate_long_code:
  "validate_row example_table [(''id'', PInt 2), (''code'', PStr ''VERYLONGCODE123'')]
     = Inl (ValueError (''Value for '' @ [quote] @ ''code'' @ [quote] @ '' exceeds maximum length of 10''))"
  by code_simp

lemma validate_short_code:
  "validate_row example_table [(''id'', PInt 2), (''code'', PStr ''XYZ'')] = Inr True"
  by code_simp

theorem insert_atomic_witness:
  "Table_insert example_table [(''id'', PInt 2), (''code'', PStr ''VERYLONGCODE123'')]
     = (example_table,
        Inl (ValueError (''Value for '' @ [quote] @ ''code'' @ [quote] @ '' exceeds maximum length of 10'')))
   \<and> insert_row example_storage ''test'' [(''id'', PInt 2), (''code'', PStr ''VERYLONGCODE123'')]
     = (example_storage,
        Inl (ValueError (''Value for '' @ [quote] @ ''code'' @ [quote] @ '' exceeds maximum length of 10'')))
   \<and> length (rows (fst (Table_insert example_table [(''id'', PInt 2), (''code'', PStr ''XYZ'')]))) = 2"
proof -
  have g: "get_table example_storage ''test'' = Some example_table"
    by (simp add: get_table_def example_storage_def)
  have r: "length (rows example_table) = 1" by (simp add: example_table_def)
  show ?thesis
    using insert_atomic [of example_table "[(''id'', PInt 2), (''code'', PStr ''VERYLONGCODE123'')]"]
      insert_atomic [of example_table "[(''id'', PInt 2), (''code'', PStr ''XYZ'')]"] g r
    by (simp add: validate_long_code validate_short_code)
qed

text \<open>
  C10. In a table whose columns are all declared INT or VARCHAR, a row that holds a float
  under some key is never stored: \<open>validate_row\<close> raises (the key is not a column, or its
  column is INT and the value is not an \<open>int\<close>, or VARCHAR and the value is not a \<open>str\<close>,
  unless an earlier check has raised already), so \<open>Table.insert\<close> raises and appends
  nothing, and \<open>insert_row\<close> leaves the tables and the files as they were.
\<close>

theorem float_rows_rejected:
  assumes "\<forall>col\<in>set (columns t). data_type col = Some ''INT'' \<or> data_type col = Some ''VARCHAR''"
    and "map_of row k = Some (PFloat f)"
  shows "\<exists>e. validate_row t row = Inl e \<and> Table_insert t row = (t, Inl e)
           \<and> (\<forall>st n. get_table st n = Some t \<longrightarrow> insert_row st n row = (st, Inl e))"
proof -
  have key: "k \<in> set (map fst row)" using map_of_SomeD [OF assms(2)] by force
  have "\<exists>e. validate_row t row = Inl e"
  proof (cases "k \<in> set (get_column_names t)")
    case True
    then obtain col where col: "col \<in> set (columns t)" "col_name col = k"
      by (auto simp: get_column_names_def)
    then have "\<exists>e. check_column col row = Inl e"
      using assms by (intro check_column_float) auto
    then show ?thesis using col(1) validate_row_Inl_iff by blast
  next
    case False
    then show ?thesis using key validate_row_Inl_iff by blast
  qed
  then obtain e where e: "validate_row t row = Inl e" ..
  then have ti: "Table_insert t row = (t, Inl e)" by (simp add: Table_insert_def)
  show ?thesis using e ti insert_row_unchanged [OF _ ti] by blast
qed


theorem float_rows_rejected_witness:
  "\<exists>e. Table_insert example_table [(''id'', PFloat (Float (Some (3 / 2)) ''1.5''))] = (example_table, Inl e)
       \<and> insert_row example_storage ''test'' [(''id'', PFloat (Float (Some (3 / 2)) ''1.5''))]
           = (example_storage, Inl e)"
proof -
  have g: "get_table example_storage ''test'' = Some example_table"
    by (simp add: get_table_def example_storage_def)
  have c: "\<forall>col\<in>set (columns example_table). data_type col = Some ''INT'' \<or> data_type col = Some ''VARCHAR''"
    by (simp add: example_table_def)
  have m: "map_of [(''id'', PFloat (Float (Some (3 / 2)) ''1.5''))] ''id'' = Some (PFloat (Float (Some (3 / 2)) ''1.5''))"
    by simp
  show ?thesis using float_rows_rejected [OF c m] g by blast
qed


section \<open>Serialization\<close>

lemma map_err_inverse:
  assumes "\<And>x. x \<in> set xs \<Longrightarrow> f (g x) = Inr x"
  shows "map_err f (map g xs) = Inr xs"
  using assms by (induction xs) auto

lemma column_from_dict_to_dict: "column_from_dict (column_to_dict col) = Inr col"
  by (cases "data_type col")
     (simp_all add: column_from_dict_def column_to_dict_def getitem_def get_or_none_def bind_def)

lemma row_from_obj_to_obj: "row_from_obj (row_to_obj r) = Inr r"
proof -
  have "map_err item_from_obj (map (\<lambda>(k, v). (k, Val v)) r) = Inr r"
    by (rule map_err_inverse) (auto simp: item_from_obj_def)
  then show ?thesis by (simp add: row_from_obj_def row_to_obj_def)
qed

lemma from_dict_inverse: "from_dict (to_dict t) = Inr t"
proof -
  have c: "map_err column_from_dict (map column_to_dict (columns t)) = Inr (columns t)"
    by (rule map_err_inverse) (rule column_from_dict_to_dict)
  have r: "map_err row_from_obj (map row_to_obj (rows t)) = Inr (rows t)"
    by (rule map_err_inverse) (rule row_from_obj_to_obj)
  show ?thesis
    by (simp add: from_dict_def to_dict_def getitem_def bind_def c r)
qed

text \<open>
  C4. For every table (any name, any list of column definitions, whatever their types and
  sizes, and any list of rows) \<open>from_dict\<close> reads back from the record that \<open>to_dict\<close> wrote
  the table itself: the same name, the same column definitions in the same order, each
  with its name, data type and size (or \<open>None\<close>), and the same rows in the same order.
\<close>

theorem from_dict_to_dict: "from_dict (to_dict t) = Inr t"
  by (rule from_dict_inverse)

theorem from_dict_to_dict_witness:
  "from_dict (to_dict example_table) = Inr example_table
   \<and> to_dict example_table =
       Dct [(''name'', Val (PStr ''test'')),
            (''columns'',
             Lst [Dct [(''name'', Val (PStr ''id'')), (''data_type'', Val (PStr ''INT'')), (''size'', Val PNone)],
                  Dct [(''name'', Val (PStr ''code'')), (''data_type'', Val (PStr ''VARCHAR'')),
                       (''size'', Val (PInt 10))]]),
            (''rows'', Lst [Dct [(''id'', Val (PInt 1)), (''code'', Val (PStr ''ABC''))]])]"
  using from_dict_to_dict [of example_table]
  by (simp add: to_dict_def example_table_def column_to_dict_def row_to_obj_def)

text \<open>
  After an insertion that did not raise, the file of the table holds a record that reads
  back as the table in memory, the new row last.
\<close>

lemma reload_after_insert:
  assumes "get_table st n = Some t" and "insert_row st n row = (st', Inr u)"
  shows "\<exists>t' obj. files st' (name t @ ''.json'') = Some obj \<and> from_dict obj = Inr t'
           \<and> tables st' n = Some t' \<and> rows t' = rows t @ [row]"
  using assms
  by (auto simp: insert_row_def Table_insert_def save_table_def from_dict_inverse split: sum.splits)


section \<open>SELECT: filtering and column resolution\<close>

lemma filter_rows_ok:
  assumes "\<forall>row\<in>set rs. \<exists>b. evaluate_where row w = Inr b"
  shows "filter_rows w rs = Inr (filter (\<lambda>row. evaluate_where row w = Inr True) rs)"
  using assms by (induction rs) auto

lemma filter_rows_raises:
  assumes "row \<in> set rs" and "evaluate_where row w = Inl e"
  shows "\<exists>e'. filter_rows w rs = Inl e'"
  using assms by (induction rs) (auto split: sum.splits)

lemma filter_rows_Inr_iff:
  "filter_rows w rs = Inr kept \<longleftrightarrow>
     (\<forall>row\<in>set rs. \<exists>b. evaluate_where row w = Inr b)
     \<and> kept = filter (\<lambda>row. evaluate_where row w = Inr True) rs"
proof
  assume k: "filter_rows w rs = Inr kept"
  have ok: "\<forall>row\<in>set rs. \<exists>b. evaluate_where row w = Inr b"
  proof
    fix row assume "row \<in> set rs"
    then show "\<exists>b. evaluate_where row w = Inr b"
      using filter_rows_raises [of row rs w] k by (cases "evaluate_where row w") auto
  qed
  then show "(\<forall>row\<in>set rs. \<exists>b. evaluate_where row w = Inr b)
     \<and> kept = filter (\<lambda>row. evaluate_where row w = Inr True) rs"
    using filter_rows_ok [OF ok] k by simp
next
  assume "(\<forall>row\<in>set rs. \<exists>b. evaluate_where row w = Inr b)
     \<and> kept = filter (\<lambda>row. evaluate_where row w = Inr True) rs"
  then show "filter_rows w rs = Inr kept" using filter_rows_ok by simp
qed

lemma requested_columns_exist_eq:
  "requested_columns_exist tname tcs cols =
     (case filter (\<lambda>c. c \<notin> set tcs) cols of
        [] \<Rightarrow> Inr ()
      | c # cs \<Rightarrow> Inl (ValueError (''Column '' @ [quote] @ c @ [quote] @ '' does not exist in table ''
                         @ [quote] @ tname @ [quote])))"
  by (induction cols) auto

lemma project_keys: "fst ` set (project cols row) = set cols"
  by (simp add: project_def dict_of_keyset image_image)

lemma project_get:
  assumes "c \<in> set cols"
  shows "map_of (project cols row) c = Some (case map_of row c of Some v \<Rightarrow> v | None \<Rightarrow> PNone)"
proof -
  have "map_of (rev (map (\<lambda>col. (col, case map_of row col of Some v \<Rightarrow> v | None \<Rightarrow> PNone)) cols)) c
        = Some (case map_of row c of Some v \<Rightarrow> v | None \<Rightarrow> PNone)"
    using assms by (simp add: rev_map map_of_map_restrict)
  then show ?thesis by (simp add: project_def dict_of_def map_of_foldl_dict_set)
qed

lemma filter_rows_first_error:
  assumes "\<forall>r\<in>set pre. \<exists>b. evaluate_where r w = Inr b" and "evaluate_where row w = Inl e"
  shows "filter_rows w (pre @ row # post) = Inl e"
  using assms by (induction pre) auto

lemma execute_select_filter_error:
  assumes "get_table st table = Some t" and "filter_rows w (rows t) = Inl e"
  shows "execute_select st cols table (Some w) = Inl e"
  using assms by (simp add: execute_select_def bind_def)

lemma execute_select_filter_ok:
  assumes "get_table st table = Some t" and "filter_rows w (rows t) = Inr kept"
    and "cols = [''*''] \<or> set cols \<subseteq> set (get_column_names t)"
  shows "execute_select st cols table (Some w)
           = Inr \<lparr>res_columns = (if cols = [''*''] then get_column_names t else cols),
                  res_rows = map (project (if cols = [''*''] then get_column_names t else cols)) kept,
                  rows_affected = 0, message = None\<rparr>"
proof (cases "cols = [''*'']")
  case True
  then show ?thesis using assms(1,2) by (simp add: execute_select_def bind_def)
next
  case False
  then have "filter (\<lambda>c. c \<notin> set (get_column_names t)) cols = []"
    using assms(3) by (auto simp: filter_empty_conv)
  then have "requested_columns_exist table (get_column_names t) cols = Inr ()"
    by (simp add: requested_columns_exist_eq)
  then show ?thesis using False assms(1,2) by (simp add: execute_select_def bind_def)
qed

text \<open>
  C3, as the code has it. The filter is pointwise only when the evaluation of the clause
  raises on no row. On an existing table: a SELECT with a WHERE clause that returns a
  result has evaluated the clause on every row of the table without an error, and the rows
  of the result are the projections, to the result's columns, of exactly those rows of the
  table on which \<open>evaluate_where\<close> gives \<open>True\<close>, in the order in which the table stores
  them; it does return such a result when the clause raises on no row and the column list
  is \<open>['*']\<close> or names declared columns only. But a row on which the evaluation raises (a
  row that lacks a column of the clause, a comparison of a text with a number) makes the
  whole statement fail, with the error of the first such row, and no row is returned,
  whatever the clause gives on the other rows.
\<close>

theorem where_filter_pointwise:
  assumes "get_table st table = Some t"
  shows "(\<forall>res. execute_select st cols table (Some w) = Inr res \<longrightarrow>
            (\<forall>row\<in>set (rows t). \<exists>b. evaluate_where row w = Inr b)
            \<and> res_rows res = map (project (res_columns res))
                                 (filter (\<lambda>row. evaluate_where row w = Inr True) (rows t)))
       \<and> ((\<forall>row\<in>set (rows t). \<exists>b. evaluate_where row w = Inr b) \<longrightarrow>
            (cols = [''*''] \<or> set cols \<subseteq> set (get_column_names t)) \<longrightarrow>
            execute_select st cols table (Some w)
              = Inr \<lparr>res_columns = (if cols = [''*''] then get_column_names t else cols),
                     res_rows = map (project (if cols = [''*''] then get_column_names t else cols))
                                  (filter (\<lambda>row. evaluate_where row w = Inr True) (rows t)),
                     rows_affected = 0, message = None\<rparr>)
       \<and> (\<forall>pre row post e.
             rows t = pre @ row # post \<longrightarrow>
             (\<forall>r\<in>set pre. \<exists>b. evaluate_where r w = Inr b) \<longrightarrow>
             evaluate_where row w = Inl e \<longrightarrow>
             execute_select st cols table (Some w) = Inl e)
       \<and> ((\<exists>row\<in>set (rows t). \<exists>e. evaluate_where row w = Inl e) \<longrightarrow>
            (\<exists>e. execute_select st cols table (Some w) = Inl e))"
proof -
  have 1: "(\<forall>row\<in>set (rows t). \<exists>b. evaluate_where row w = Inr b)
            \<and> res_rows res = map (project (res_columns res))
                                 (filter (\<lambda>row. evaluate_where row w = Inr True) (rows t))"
    if sel: "execute_select st cols table (Some w) = Inr res" for res
  proof -
    obtain kept where k: "filter_rows w (rows t) = Inr kept"
      and r: "res_rows res = map (project (res_columns res)) kept"
      using assms sel
      by (auto simp: execute_select_def bind_def split: sum.splits if_splits)
    show ?thesis using k r by (simp add: filter_rows_Inr_iff)
  qed
  have 2: "execute_select st cols table (Some w)
              = Inr \<lparr>res_columns = (if cols = [''*''] then get_column_names t else cols),
                     res_rows = map (project (if cols = [''*''] then get_column_names t else cols))
                                  (filter (\<lambda>row. evaluate_where row w = Inr True) (rows t)),
                     rows_affected = 0, message = None\<rparr>"
    if "\<forall>row\<in>set (rows t). \<exists>b. evaluate_where row w = Inr b"
      and "cols = [''*''] \<or> set cols \<subseteq> set (get_column_names t)"
    using execute_select_filter_ok [OF assms filter_rows_ok [OF that(1)] that(2)] .
  have 3: "execute_select st cols table (Some w) = Inl e"
    if "rows t = pre @ row # post" and "\<forall>r\<in>set pre. \<exists>b. evaluate_where r w = Inr b"
      and "evaluate_where row w = Inl e" for pre row post e
    using execute_select_filter_error [OF assms, of w e cols]
      filter_rows_first_error [OF that(2,3), of post] that(1) by simp
  have 4: "\<exists>e. execute_select st cols table (Some w) = Inl e"
    if ex: "\<exists>row\<in>set (rows t). \<exists>e. evaluate_where row w = Inl e"
  proof -
    obtain row e where "row \<in> set (rows t)" and "evaluate_where row w = Inl e"
      using ex by blast
    then obtain e' where "filter_rows w (rows t) = Inl e'"
      using filter_rows_raises by blast
    then show ?thesis using execute_select_filter_error [OF assms] by blast
  qed
  show ?thesis using 1 2 3 4 by blast
qed

lemma select_bob:
  "execute_select users_storage [''name'', ''age''] ''users'' (Some age_between)
     = Inr \<lparr>res_columns = [''name'', ''age''],
            res_rows = [[(''name'', PStr ''Bob''), (''age'', PInt 30)]],
            rows_affected = 0, message = None\<rparr>"
  by code_simp

lemma filter_bob:
  "filter (\<lambda>row. evaluate_where row age_between = Inr True) (rows users_table)
     = [[(''id'', PInt 2), (''name'', PStr ''Bob''), (''age'', PInt 30)]]"
  by code_simp

lemma users_rows_evaluate:
  "\<forall>r\<in>set (rows users_table). \<exists>b. evaluate_where r age_between = Inr b"
  by code_simp

lemma partial_row_raises:
  "evaluate_where [(''id'', PInt 9)] age_between
     = Inl (ValueError (''Column '' @ [quote] @ ''age'' @ [quote] @ '' not found in row''))"
  by code_simp

lemma validate_id_row: "validate_row users_table [(''id'', PInt 9)] = Inr True"
  by code_simp

lemma insert_partial_row:
  "get_table (fst (execute_insert users_storage ''users'' [''id''] [PInt 9])) ''users''
     = Some (users_table\<lparr>rows := rows users_table @ [[(''id'', PInt 9)]]\<rparr>)"
  by (simp add: execute_insert_def insert_row_cases get_users validate_id_row dict_of_def
      get_table_save Let_def)

theorem where_filter_pointwise_witness:
  "execute_select users_storage [''name'', ''age''] ''users'' (Some age_between)
       = Inr \<lparr>res_columns = [''name'', ''age''],
              res_rows = map (project [''name'', ''age''])
                           (filter (\<lambda>row. evaluate_where row age_between = Inr True) (rows users_table)),
              rows_affected = 0, message = None\<rparr>
   \<and> [[(''name'', PStr ''Bob''), (''age'', PInt 30)]]
       = map (project [''name'', ''age''])
           (filter (\<lambda>row. evaluate_where row age_between = Inr True) (rows users_table))
   \<and> execute_select (fst (execute_insert users_storage ''users'' [''id''] [PInt 9]))
        [''name'', ''age''] ''users'' (Some age_between)
       = Inl (ValueError (''Column '' @ [quote] @ ''age'' @ [quote] @ '' not found in row''))"
proof -
  have c: "[''name'', ''age''] = [''*''] \<or> set [''name'', ''age''] \<subseteq> set (get_column_names users_table)"
    by (simp add: get_column_names_def users_table_def)
  have a: "execute_select users_storage [''name'', ''age''] ''users'' (Some age_between)
       = Inr \<lparr>res_columns = [''name'', ''age''],
              res_rows = map (project [''name'', ''age''])
                           (filter (\<lambda>row. evaluate_where row age_between = Inr True) (rows users_table)),
              rows_affected = 0, message = None\<rparr>"
    using where_filter_pointwise [OF get_users, where cols = "[''name'', ''age'']" and w = age_between,
        THEN conjunct2, THEN conjunct1, THEN mp, OF users_rows_evaluate, THEN mp, OF c]
    by simp
  have b: "[[(''name'', PStr ''Bob''), (''age'', PInt 30)]]
       = map (project [''name'', ''age''])
           (filter (\<lambda>row. evaluate_where row age_between = Inr True) (rows users_table))"
    using where_filter_pointwise [OF get_users, where cols = "[''name'', ''age'']" and w = age_between,
        THEN conjunct1, THEN spec, THEN mp, OF select_bob, THEN conjunct2]
    by simp
  have r: "rows (users_table\<lparr>rows := rows users_table @ [[(''id'', PInt 9)]]\<rparr>)
             = rows users_table @ [(''id'', PInt 9)] # []"
    by simp
  have d: "execute_select (fst (execute_insert users_storage ''users'' [''id''] [PInt 9]))
        [''name'', ''age''] ''users'' (Some age_between)
       = Inl (ValueError (''Column '' @ [quote] @ ''age'' @ [quote] @ '' not found in row''))"
    using where_filter_pointwise [OF insert_partial_row, where cols = "[''name'', ''age'']"
        and w = age_between, THEN conjunct2, THEN conjunct2, THEN conjunct1, THEN spec, THEN spec,
        THEN spec, THEN spec, THEN mp, OF r, THEN mp, OF users_rows_evaluate, THEN mp,
        OF partial_row_raises] .
  show ?thesis using a b d by blast
qed

text \<open>
  The claim as the spec states it, for every table, fails on a table with a row that lacks
  a column of the clause. \<open>INSERT INTO users (id) VALUES (9)\<close> stores such a row in the table
  of scenario A (\<open>validate_row\<close> checks the keys that the row has); then \<open>SELECT name, age
  FROM users WHERE age > 26 AND age < 32\<close> fails with "Column 'age' not found in row" and
  returns no row, although the clause is true on the row of Bob, which the table still
  holds.
\<close>

lemma partial_row_statements:
  "snd (execute sample_float users_storage ''INSERT INTO users (id) VALUES (9)'')
     = \<lparr>res_columns = [], res_rows = [], rows_affected = 1,
        message = Some (''1 row inserted into '' @ [quote] @ ''users'' @ [quote])\<rparr>"
  "snd (execute sample_float
          (fst (execute sample_float users_storage ''INSERT INTO users (id) VALUES (9)''))
          ''SELECT name, age FROM users WHERE age > 26 AND age < 32'')
     = error_result (ValueError (''Column '' @ [quote] @ ''age'' @ [quote] @ '' not found in row''))"
  "execute_select (fst (execute_insert users_storage ''users'' [''id''] [PInt 9]))
        [''name'', ''age''] ''users'' (Some age_between)
     = Inl (ValueError (''Column '' @ [quote] @ ''age'' @ [quote] @ '' not found in row''))"
  "evaluate_where [(''id'', PInt 2), (''name'', PStr ''Bob''), (''age'', PInt 30)] age_between = Inr True"
  by code_simp+

theorem where_filter_partial_row:
  "snd (execute sample_float users_storage ''INSERT INTO users (id) VALUES (9)'')
     = \<lparr>res_columns = [], res_rows = [], rows_affected = 1,
        message = Some (''1 row inserted into '' @ [quote] @ ''users'' @ [quote])\<rparr>
   \<and> snd (execute sample_float
          (fst (execute sample_float users_storage ''INSERT INTO users (id) VALUES (9)''))
          ''SELECT name, age FROM users WHERE age > 26 AND age < 32'')
     = error_result (ValueError (''Column '' @ [quote] @ ''age'' @ [quote] @ '' not found in row''))
   \<and> get_table (fst (execute_insert users_storage ''users'' [''id''] [PInt 9])) ''users''
     = Some (users_table\<lparr>rows := rows users_table @ [[(''id'', PInt 9)]]\<rparr>)
   \<and> execute_select (fst (execute_insert users_storage ''users'' [''id''] [PInt 9]))
        [''name'', ''age''] ''users'' (Some age_between)
     = Inl (ValueError (''Column '' @ [quote] @ ''age'' @ [quote] @ '' not found in row''))
   \<and> [(''id'', PInt 2), (''name'', PStr ''Bob''), (''age'', PInt 30)]
        \<in> set (rows (users_table\<lparr>rows := rows users_table @ [[(''id'', PInt 9)]]\<rparr>))
   \<and> evaluate_where [(''id'', PInt 2), (''name'', PStr ''Bob''), (''age'', PInt 30)] age_between
     = Inr True"
  using partial_row_statements insert_partial_row by (simp add: users_table_def)

text \<open>
  C5, as the code has it. The WHERE filter runs before the columns are resolved. On an
  existing table: when the evaluation of the WHERE clause raises on some row, the
  statement fails with that error, whatever the column list. Otherwise \<open>['*']\<close> resolves
  to the declared column names in declared order; an explicit list with a name that is not
  a declared column fails with the "does not exist" error of the first such name; and any
  other explicit list is the result's column list as it stands, each kept row projected
  with \<open>row.get(col)\<close>: the keys of a projected row are the requested columns, and the
  value of a column that the row lacks is \<open>None\<close>.
\<close>

theorem select_column_resolution:
  assumes "get_table st table = Some t"
  shows "(case (case wh of None \<Rightarrow> Inr (rows t) | Some w \<Rightarrow> filter_rows w (rows t)) of
            Inl e \<Rightarrow> execute_select st cols table wh = Inl e
          | Inr kept \<Rightarrow>
              execute_select st cols table wh =
                (if cols = [''*''] then
                   Inr \<lparr>res_columns = get_column_names t,
                        res_rows = map (project (get_column_names t)) kept,
                        rows_affected = 0, message = None\<rparr>
                 else
                   (case filter (\<lambda>c. c \<notin> set (get_column_names t)) cols of
                      [] \<Rightarrow> Inr \<lparr>res_columns = cols, res_rows = map (project cols) kept,
                                 rows_affected = 0, message = None\<rparr>
                    | c # cs \<Rightarrow>
                        Inl (ValueError (''Column '' @ [quote] @ c @ [quote]
                               @ '' does not exist in table '' @ [quote] @ table @ [quote])))))
       \<and> (\<forall>row. fst ` set (project cols row) = set cols)
       \<and> (\<forall>row c. c \<in> set cols \<longrightarrow>
             map_of (project cols row) c = Some (case map_of row c of Some v \<Rightarrow> v | None \<Rightarrow> PNone))"
  using assms
  by (auto simp: execute_select_def bind_def requested_columns_exist_eq project_keys project_get
      split: sum.splits list.splits option.splits)

lemma select_star:
  "execute_select users_storage [''*''] ''users'' (Some age_between)
     = Inr \<lparr>res_columns = [''id'', ''name'', ''age''],
            res_rows = [[(''id'', PInt 2), (''name'', PStr ''Bob''), (''age'', PInt 30)]],
            rows_affected = 0, message = None\<rparr>"
  by code_simp

lemma select_reversed:
  "execute_select users_storage [''age'', ''id''] ''users'' (Some age_between)
     = Inr \<lparr>res_columns = [''age'', ''id''],
            res_rows = [[(''age'', PInt 30), (''id'', PInt 2)]],
            rows_affected = 0, message = None\<rparr>"
  by code_simp

lemma select_unknown:
  "execute_select users_storage [''id'', ''salary''] ''users'' (Some age_between)
     = Inl (ValueError (''Column '' @ [quote] @ ''salary'' @ [quote] @ '' does not exist in table ''
              @ [quote] @ ''users'' @ [quote]))"
  by code_simp

theorem select_column_resolution_witness:
  "execute_select users_storage [''*''] ''users'' (Some age_between)
     = Inr \<lparr>res_columns = get_column_names users_table,
            res_rows = map (project (get_column_names users_table))
                         [[(''id'', PInt 2), (''name'', PStr ''Bob''), (''age'', PInt 30)]],
            rows_affected = 0, message = None\<rparr>
   \<and> execute_select users_storage [''age'', ''id''] ''users'' (Some age_between)
     = Inr \<lparr>res_columns = [''age'', ''id''],
            res_rows = [[(''age'', PInt 30), (''id'', PInt 2)]],
            rows_affected = 0, message = None\<rparr>
   \<and> execute_select users_storage [''id'', ''salary''] ''users'' (Some age_between)
     = Inl (ValueError (''Column '' @ [quote] @ ''salary'' @ [quote] @ '' does not exist in table ''
              @ [quote] @ ''users'' @ [quote]))"
proof -
  have k: "filter_rows age_between (rows users_table)
             = Inr [[(''id'', PInt 2), (''name'', PStr ''Bob''), (''age'', PInt 30)]]"
    by code_simp
  have star: "execute_select users_storage [''*''] ''users'' (Some age_between)
     = Inr \<lparr>res_columns = get_column_names users_table,
            res_rows = map (project (get_column_names users_table))
                         [[(''id'', PInt 2), (''name'', PStr ''Bob''), (''age'', PInt 30)]],
            rows_affected = 0, message = None\<rparr>"
    using select_column_resolution [OF get_users, where wh = "Some age_between" and cols = "[''*'']"] by (simp add: k)
  show ?thesis using star select_reversed select_unknown by simp
qed

text \<open>
  The claim as the spec states it, that a requested name which is not a column makes the
  statement fail with the "does not exist" error, fails when the WHERE clause raises first:
  \<open>SELECT salary FROM users WHERE name > 5\<close> fails with the TypeError of the comparison.
\<close>

theorem select_unknown_column_other_error:
  "get_table users_storage ''users'' = Some users_table
   \<and> ''salary'' \<notin> set (get_column_names users_table)
   \<and> execute_select users_storage [''salary''] ''users'' (Some (Condition ''name'' ''>'' (PInt 5)))
       = Inl (TypeError ([quote] @ ''>'' @ [quote] @ '' not supported between instances of ''
                @ [quote] @ ''str'' @ [quote] @ '' and '' @ [quote] @ ''int'' @ [quote]))"
  by code_simp


section \<open>Rendering a result\<close>

lemma init_widths_fold:
  "foldl (\<lambda>w col. w(col \<mapsto> length col)) w cols c
     = (if c \<in> set cols then Some (length c) else w c)"
  by (induction cols arbitrary: w) auto

lemma col_widths_init: "c \<in> set cols \<Longrightarrow> width_of (init_widths cols) c = length c"
  by (simp add: init_widths_def init_widths_fold width_of_def)

lemma widen_row_fold:
  "foldl (\<lambda>w col. w(col \<mapsto> max (width_of w col) (length (cell row col)))) w cols c
     = (if c \<in> set cols then Some (max (width_of w c) (length (cell row c))) else w c)"
proof (induction cols arbitrary: w)
  case Nil
  show ?case by simp
next
  case (Cons col cols)
  let ?f = "\<lambda>w col. w(col \<mapsto> max (width_of w col) (length (cell row col)))"
  let ?w' = "w(col \<mapsto> max (width_of w col) (length (cell row col)))"
  have "foldl ?f w (col # cols) c = foldl ?f ?w' cols c" by simp
  also have "\<dots> = (if c \<in> set cols then Some (max (width_of ?w' c) (length (cell row c))) else ?w' c)"
    by (rule Cons.IH)
  also have "\<dots> = (if c \<in> set (col # cols) then Some (max (width_of w c) (length (cell row c))) else w c)"
    by (auto simp: width_of_def)
  finally show ?case .
qed

lemma width_of_widen_row:
  assumes "c \<in> set cols"
  shows "width_of (widen_row cols w row) c = max (width_of w c) (length (cell row c))"
proof -
  have "widen_row cols w row c = Some (max (width_of w c) (length (cell row c)))"
    using assms by (simp only: widen_row_def widen_row_fold if_True)
  then show ?thesis by (simp add: width_of_def)
qed

lemma Max_insert_max:
  assumes "finite S"
  shows "Max (insert (max a b) S) = Max (insert a (insert b S))"
proof (cases "S = {}")
  case True
  then show ?thesis by (simp add: max.commute)
next
  case False
  then show ?thesis using assms by (simp add: max.assoc)
qed

lemma width_of_foldl_widen:
  assumes "c \<in> set cols"
  shows "width_of (foldl (widen_row cols) w rs) c
           = Max (insert (width_of w c) ((\<lambda>row. length (cell row c)) ` set rs))"
proof (induction rs arbitrary: w)
  case Nil
  show ?case by simp
next
  case (Cons row rs)
  show ?case
    by (simp add: Cons.IH width_of_widen_row [OF assms] Max_insert_max)
qed

lemma col_widths_spec: "c \<in> set (res_columns qr) \<Longrightarrow> width_of (col_widths qr) c = spec_width qr c"
  by (simp add: col_widths_def width_of_foldl_widen col_widths_init spec_width_def)

lemma foldl_widen_defined:
  "\<exists>n. w c = Some n \<Longrightarrow> \<exists>n. foldl (widen_row cols) w rs c = Some n"
  by (induction rs arbitrary: w) (auto simp: widen_row_def widen_row_fold)

lemma col_widths_defined: "c \<in> set (res_columns qr) \<Longrightarrow> \<exists>n. col_widths qr c = Some n"
  by (simp add: col_widths_def foldl_widen_defined init_widths_def init_widths_fold)

lemma spec_width_ge:
  "length c \<le> spec_width qr c"
  "row \<in> set (res_rows qr) \<Longrightarrow> length (cell row c) \<le> spec_width qr c"
  by (simp_all add: spec_width_def)

lemma length_ljust: "length (ljust s w) = max w (length s)"
  by (simp add: ljust_def)

lemma render_table_spec:
  "render_table qr =
     join [newline]
       ([join '' | '' (map (\<lambda>col. ljust col (spec_width qr col)) (res_columns qr)),
         join ''-+-'' (map (\<lambda>col. replicate (spec_width qr col) CHR ''-'') (res_columns qr))]
        @ map (\<lambda>row. join '' | '' (map (\<lambda>col. ljust (cell row col) (spec_width qr col))
                                      (res_columns qr))) (res_rows qr)
        @ [[newline] @ ''('' @ str_nat (length (res_rows qr)) @ '' rows)''])"
proof -
  have h: "map (\<lambda>col. ljust col (width_of (col_widths qr) col)) (res_columns qr)
           = map (\<lambda>col. ljust col (spec_width qr col)) (res_columns qr)"
    by (rule map_cong) (simp_all add: col_widths_spec)
  have s: "map (\<lambda>col. replicate (width_of (col_widths qr) col) CHR ''-'') (res_columns qr)
           = map (\<lambda>col. replicate (spec_width qr col) CHR ''-'') (res_columns qr)"
    by (rule map_cong) (simp_all add: col_widths_spec)
  have r: "\<And>row. map (\<lambda>col. ljust (cell row col) (width_of (col_widths qr) col)) (res_columns qr)
           = map (\<lambda>col. ljust (cell row col) (spec_width qr col)) (res_columns qr)"
    by (rule map_cong) (simp_all add: col_widths_spec)
  show ?thesis by (simp add: render_table_def Let_def h s r)
qed

text \<open>
  C9, as the code has it. A message that is set and not empty is rendered as it stands.
  Otherwise (no message, or the empty one) a result without rows is rendered as
  \<open>(<rows_affected> rows affected)\<close>, and a result with rows as these lines, joined by
  newlines: the header of the column names joined by \<open>" | "\<close>; the separator, for each
  column as many dashes as the column is wide, joined by \<open>"-+-"\<close>; one line per row, its
  cells joined by \<open>" | "\<close>; and the line \<open>"\n(<N> rows)"\<close> for the \<open>N\<close> rows, which starts
  with a newline and so leaves a blank line before \<open>(<N> rows)\<close>. A column is as wide as
  its widest cell or its name (\<open>spec_width\<close>), and each name and each cell is left-justified:
  blanks are added on its right up to the width of its column.
\<close>

theorem QueryResult_str_cases:
  "(\<forall>m. message qr = Some m \<and> m \<noteq> [] \<longrightarrow> QueryResult_str qr = m)
   \<and> ((message qr = None \<or> message qr = Some []) \<and> res_rows qr = [] \<longrightarrow>
        QueryResult_str qr = ''('' @ str_int (rows_affected qr) @ '' rows affected)'')
   \<and> ((message qr = None \<or> message qr = Some []) \<and> res_rows qr \<noteq> [] \<longrightarrow>
        QueryResult_str qr =
          join [newline]
            ([join '' | '' (map (\<lambda>col. ljust col (spec_width qr col)) (res_columns qr)),
              join ''-+-'' (map (\<lambda>col. replicate (spec_width qr col) CHR ''-'') (res_columns qr))]
             @ map (\<lambda>row. join '' | '' (map (\<lambda>col. ljust (cell row col) (spec_width qr col))
                                           (res_columns qr))) (res_rows qr)
             @ [[newline] @ ''('' @ str_nat (length (res_rows qr)) @ '' rows)'']))
   \<and> (\<forall>col s. length s \<le> spec_width qr col \<longrightarrow>
         ljust s (spec_width qr col) = s @ replicate (spec_width qr col - length s) CHR '' ''
         \<and> length (ljust s (spec_width qr col)) = spec_width qr col)
   \<and> (\<forall>col. length col \<le> spec_width qr col
         \<and> (\<forall>row\<in>set (res_rows qr). length (cell row col) \<le> spec_width qr col))"
proof -
  have 1: "\<forall>m. message qr = Some m \<and> m \<noteq> [] \<longrightarrow> QueryResult_str qr = m"
    by (simp add: QueryResult_str_def)
  have 2: "(message qr = None \<or> message qr = Some []) \<and> res_rows qr = [] \<longrightarrow>
        QueryResult_str qr = ''('' @ str_int (rows_affected qr) @ '' rows affected)''"
    by (auto simp: QueryResult_str_def)
  have 3: "(message qr = None \<or> message qr = Some []) \<and> res_rows qr \<noteq> [] \<longrightarrow>
        QueryResult_str qr = render_table qr"
    by (auto simp: QueryResult_str_def)
  have 4: "\<forall>col s. length s \<le> spec_width qr col \<longrightarrow>
         ljust s (spec_width qr col) = s @ replicate (spec_width qr col - length s) CHR '' ''
         \<and> length (ljust s (spec_width qr col)) = spec_width qr col"
    by (simp add: ljust_def)
  have 5: "\<forall>col. length col \<le> spec_width qr col
         \<and> (\<forall>row\<in>set (res_rows qr). length (cell row col) \<le> spec_width qr col)"
    by (simp add: spec_width_ge)
  show ?thesis using 1 2 3 4 5 by (simp only: render_table_spec) blast
qed

lemma bob_fields:
  "res_columns bob_result = [''name'', ''age'']"
  "res_rows bob_result = [[(''name'', PStr ''Bob''), (''age'', PInt 30)]]"
  "rows_affected bob_result = 0"
  "message bob_result = None"
  by (simp_all add: bob_result_def)

lemma str_small:
  "str_nat 1 = ''1''" "str_nat (Suc 0) = ''1''" "str_nat 30 = ''30''" "str_int 1 = ''1''" "str_int 30 = ''30''"
  by code_simp+

lemma bob_widths: "spec_width bob_result ''name'' = 4" "spec_width bob_result ''age'' = 3"
  by (simp_all add: spec_width_def bob_fields cell_def str_small)

theorem QueryResult_str_cases_witness:
  "QueryResult_str bob_result
     = ''name | age'' @ [newline] @ ''-----+----'' @ [newline] @ ''Bob  | 30 '' @ [newline]
       @ [newline] @ ''(1 rows)''
   \<and> QueryResult_str (bob_result\<lparr>res_rows := [], rows_affected := 1\<rparr>) = ''(1 rows affected)''
   \<and> QueryResult_str (bob_result\<lparr>message := Some ''done''\<rparr>) = ''done''"
  using QueryResult_str_cases [of bob_result]
    QueryResult_str_cases [of "bob_result\<lparr>res_rows := [], rows_affected := 1\<rparr>"]
    QueryResult_str_cases [of "bob_result\<lparr>message := Some ''done''\<rparr>"]
  by (simp add: bob_fields bob_widths cell_def ljust_def str_small eval_nat_numeral)

text \<open>
  The claim as the spec states it fails twice. A message that is set but empty is not
  rendered verbatim: the result is rendered as one without a message. And the values are
  not padded on the left: the cell \<open>1\<close> of the column \<open>id\<close> is rendered as \<open>1\<close> followed
  by a blank.
\<close>

theorem QueryResult_str_empty_message:
  "QueryResult_str \<lparr>res_columns = [], res_rows = [], rows_affected = 0, message = Some []\<rparr>
     = ''(0 rows affected)''
   \<and> QueryResult_str \<lparr>res_columns = [''id''], res_rows = [[(''id'', PInt 1)]], rows_affected = 0,
                        message = None\<rparr>
     = ''id'' @ [newline] @ ''--'' @ [newline] @ ''1 '' @ [newline] @ [newline] @ ''(1 rows)''"
  by code_simp


section \<open>The boundary of the engine\<close>

lemma append_token_values:
  assumes "append_token tok r = Inr toks" and "str_valued tok"
    and "\<And>ts. r = Inr ts \<Longrightarrow> \<forall>t\<in>set ts. str_valued t"
  shows "\<forall>t\<in>set toks. str_valued t"
  using assms by (auto simp: append_token_def split: sum.splits)

lemma tokenize_from_values:
  "tokenize_from fl pos s = Inr toks \<Longrightarrow> \<forall>t\<in>set toks. str_valued t"
proof (induction fl pos s arbitrary: toks rule: tokenize_from.induct)
  case (1 fl pos)
  then show ?case by (auto simp: str_valued_def)
next
  case (2 fl pos c cs)
  show ?case
  proof (cases "isspace c")
    case True
    then show ?thesis using 2 by simp
  next
    case sp: False
    show ?thesis
    proof (cases "isdigit c")
      case True
      then obtain tok pos' s' where rn: "read_number fl pos (c # cs) = Inr (tok, pos', s')"
        and at: "append_token tok (tokenize_from fl pos' s') = Inr toks"
        using 2(9) sp by (auto split: sum.splits)
      have "str_valued tok"
        using rn by (auto simp: read_number_def Let_def str_valued_def split: if_splits sum.splits)
      then show ?thesis using append_token_values [OF at] 2(2) [OF sp True rn] by blast
    next
      case dg: False
      show ?thesis
      proof (cases "c = quote")
        case True
        then obtain tok pos' s' where rs: "read_string pos (c # cs) = Inr (tok, pos', s')"
          and at: "append_token tok (tokenize_from fl pos' s') = Inr toks"
          using 2(9) sp dg by (auto split: sum.splits)
        have "str_valued tok" using rs by (auto simp: read_string_def Let_def str_valued_def split: list.splits)
        then show ?thesis using append_token_values [OF at] 2(3) [OF sp dg True rs] by blast
      next
        case q: False
        show ?thesis
        proof (cases "isalpha c \<or> c = CHR ''_''")
          case True
          obtain tok pos' s' where ri: "read_identifier pos (c # cs) = (tok, pos', s')"
            by (cases "read_identifier pos (c # cs)") auto
          then have at: "append_token tok (tokenize_from fl pos' s') = Inr toks"
            using 2(9) sp dg q True by simp
          have "str_valued tok" using ri by (auto simp: read_identifier_def Let_def str_valued_def)
          then show ?thesis using append_token_values [OF at] 2(4) [OF sp dg q True ri [symmetric]] by blast
        next
          case al: False
          show ?thesis
          proof (cases "c = CHR ''>'' \<and> cs \<noteq> [] \<and> hd cs = CHR ''=''")
            case True
            then have at: "append_token \<lparr>ttype = GREATER_EQ, tvalue = PStr ''>='', tposition = pos\<rparr>
                             (tokenize_from fl (pos + 2) (tl cs)) = Inr toks"
              using 2(9) sp dg q al by simp
            show ?thesis
              using append_token_values [OF at] 2(5) [OF sp dg q al True] by (simp add: str_valued_def)
          next
            case ge: False
            show ?thesis
            proof (cases "c = CHR ''<'' \<and> cs \<noteq> [] \<and> hd cs = CHR ''=''")
              case True
              then have at: "append_token \<lparr>ttype = LESS_EQ, tvalue = PStr ''<='', tposition = pos\<rparr>
                               (tokenize_from fl (pos + 2) (tl cs)) = Inr toks"
                using 2(9) sp dg q al ge by simp
              show ?thesis
                using append_token_values [OF at] 2(6) [OF sp dg q al ge True] by (simp add: str_valued_def)
            next
              case le: False
              show ?thesis
              proof (cases "c = CHR ''!'' \<and> cs \<noteq> [] \<and> hd cs = CHR ''=''")
                case True
                then have at: "append_token \<lparr>ttype = NOT_EQ, tvalue = PStr ''!='', tposition = pos\<rparr>
                                 (tokenize_from fl (pos + 2) (tl cs)) = Inr toks"
                  using 2(9) sp dg q al ge le by simp
                show ?thesis
                  using append_token_values [OF at] 2(7) [OF sp dg q al ge le True]
                  by (simp add: str_valued_def)
              next
                case ne: False
                obtain tt where cm: "map_of char_map c = Some tt"
                  and at: "append_token \<lparr>ttype = tt, tvalue = PStr [c], tposition = pos\<rparr>
                             (tokenize_from fl (pos + 1) cs) = Inr toks"
                  using 2(9) sp dg q al ge le ne by (cases "map_of char_map c") simp_all
                show ?thesis
                  using append_token_values [OF at] 2(8) [OF sp dg q al ge le ne cm]
                  by (simp add: str_valued_def)
              qed
            qed
          qed
        qed
      qed
    qed
  qed
qed


text \<open>
  C1. \<open>SQLEngine.execute\<close> returns a QueryResult for every text. Either the three steps
  all return and the result is the executor's; or one of them raises an error \<open>e\<close> (the
  lexer, or the parser on the lexer's tokens, or the executor on the parser's statement) and
  the result is \<open>QueryResult(message = "Error: " + str(e))\<close>. Every failure of the steps is
  an exception of a class under \<open>Exception\<close> (ValueError, TypeError, AttributeError), which
  the \<open>except\<close> clause catches. (The interpreter's limit of the recursion depth, in the
  parser and in \<open>evaluate_where\<close>, raises an exception under \<open>Exception\<close> as well; it is
  outside of these definitions.)
\<close>

theorem execute_never_raises:
  "(\<exists>tokens ast st' result.
      tokenize fl sql = Inr tokens \<and> parse tokens = Inr ast
      \<and> executor_execute st ast = (st', Inr result)
      \<and> execute fl st sql = (st', result))
   \<or> (\<exists>e st'.
        (tokenize fl sql = Inl e \<and> st' = st
         \<or> (\<exists>tokens. tokenize fl sql = Inr tokens
               \<and> (parse tokens = Inl e \<and> st' = st
                    \<or> (\<exists>ast. parse tokens = Inr ast \<and> executor_execute st ast = (st', Inl e)))))
        \<and> execute fl st sql = (st', error_result e)
        \<and> message (error_result e) = Some (''Error: '' @ err_str e))"
proof (cases "tokenize fl sql")
  case (Inl e)
  then show ?thesis by (auto simp: execute_def error_result_def)
next
  case tk: (Inr tokens)
  show ?thesis
  proof (cases "parse tokens")
    case (Inl e)
    then show ?thesis using tk by (auto simp: execute_def error_result_def)
  next
    case ps: (Inr ast)
    obtain st' r where ex: "executor_execute st ast = (st', r)" by (cases "executor_execute st ast")
    show ?thesis
    proof (cases r)
      case (Inl e)
      then show ?thesis using tk ps ex by (auto simp: execute_def error_result_def)
    next
      case (Inr result)
      then show ?thesis using tk ps ex by (auto simp: execute_def)
    qed
  qed
qed

lemma execute_examples:
  "snd (execute sample_float users_storage ''SELECT * FROM nonexistent'')
     = error_result (ValueError (''Table '' @ [quote] @ ''nonexistent'' @ [quote] @ '' does not exist''))"
  "message (snd (execute sample_float users_storage ''SELECT * FROM nonexistent''))
     = Some (''Error: Table '' @ [quote] @ ''nonexistent'' @ [quote] @ '' does not exist'')"
  "message (snd (execute sample_float users_storage ''SELECT # FROM users''))
     = Some (''Error: Unexpected character '' @ [quote] @ ''#'' @ [quote] @ '' at position 7'')"
  "message (snd (execute sample_float users_storage ''SELECT FROM users''))
     = Some ''Error: Expected TokenType.IDENTIFIER, got TokenType.FROM at position 7''"
  "message (snd (execute sample_float users_storage ''SELECT name FROM users WHERE name > 1.5''))
     = Some (''Error: '' @ [quote] @ ''>'' @ [quote] @ '' not supported between instances of ''
              @ [quote] @ ''str'' @ [quote] @ '' and '' @ [quote] @ ''float'' @ [quote])"
  "snd (execute sample_float users_storage ''select name, age from users where age > 26 and age < 32'')
     = bob_result"
  by code_simp+

theorem execute_never_raises_witness:
  "snd (execute sample_float users_storage ''SELECT * FROM nonexistent'')
     = error_result (ValueError (''Table '' @ [quote] @ ''nonexistent'' @ [quote] @ '' does not exist''))
   \<and> message (snd (execute sample_float users_storage ''SELECT * FROM nonexistent''))
     = Some (''Error: Table '' @ [quote] @ ''nonexistent'' @ [quote] @ '' does not exist'')
   \<and> message (snd (execute sample_float users_storage ''SELECT # FROM users''))
     = Some (''Error: Unexpected character '' @ [quote] @ ''#'' @ [quote] @ '' at position 7'')
   \<and> message (snd (execute sample_float users_storage ''SELECT FROM users''))
     = Some ''Error: Expected TokenType.IDENTIFIER, got TokenType.FROM at position 7''
   \<and> message (snd (execute sample_float users_storage ''SELECT name FROM users WHERE name > 1.5''))
     = Some (''Error: '' @ [quote] @ ''>'' @ [quote] @ '' not supported between instances of ''
              @ [quote] @ ''str'' @ [quote] @ '' and '' @ [quote] @ ''float'' @ [quote])
   \<and> snd (execute sample_float users_storage ''select name, age from users where age > 26 and age < 32'')
     = bob_result"
  using execute_never_raises [of sample_float "''SELECT * FROM nonexistent''" users_storage]
    execute_examples
  by simp


end
